theory Spec2Isabelle
  imports Main "HOL-Library.Word"
begin

unbundle bit_operations_syntax

section \<open>The syntax highlighter (hl.c)\<close>

subsection \<open>States, conditions and actions\<close>

text \<open>
  Modelled from the spec: \<^verbatim>\<open>struct state\<close>, \<^verbatim>\<open>struct condition\<close> and
  \<^verbatim>\<open>struct action\<close> are declared in a header that is not among the sources; their
  fields are the ones that hl.c reads, and the conditions are the tagged variants of the
  table of conditions. A \<^verbatim>\<open>struct state *\<close> is a reference into the loaded
  syntax; a \<^verbatim>\<open>struct hl_color *\<close> is a reference to a colour. Both are numbered
  here, and the syntax is the store that maps a state reference to its
  \<^verbatim>\<open>struct state\<close>.
\<close>

type_synonym state_ref = nat
type_synonym color_ref = nat

record action =
  emit_color :: color_ref
  destination :: state_ref

text \<open>
  \<^verbatim>\<open>struct condition\<close>: a type tag, the data of the union member that the tag
  selects, and the action \<^verbatim>\<open>a\<close>. A bitmap is the 32 bytes of
  \<^verbatim>\<open>cond_char.bitmap\<close>; a string list is \<^verbatim>\<open>list->u.strings\<close> (or the
  strings chained in \<^verbatim>\<open>list->u.hash\<close>) with the flag \<^verbatim>\<open>list->icase\<close>.
\<close>

datatype condition =
    COND_CHAR_BUFFER "8 word list" action
  | COND_BUFIS string bool action
  | COND_CHAR "8 word list" action
  | COND_INLIST "string list" bool action
  | COND_INLIST_HASH "string list" bool action
  | COND_RECOLOR int action
  | COND_RECOLOR_BUFFER action
  | COND_STR string action
  | COND_STR_ICASE string action
  | COND_STR2 string action

record hl_state =
  conditions :: "condition list"
  state_a :: action
  noeat :: bool

type_synonym syn_store = "state_ref \<Rightarrow> hl_state"

text \<open>The array \<^verbatim>\<open>colors\<close>: one cell per column, \<open>None\<close> while not painted.\<close>

type_synonym colors = "color_ref option list"

definition bitmap_get :: "8 word list \<Rightarrow> nat \<Rightarrow> bool" where
  "bitmap_get bitmap idx =
     (let byte = idx div 8; bit_nr = idx mod 8
      in (bitmap ! byte) AND (push_bit bit_nr 1) \<noteq> 0)"

text \<open>
  \<^verbatim>\<open>strncasecmp\<close> compares bytes after folding the ASCII upper case letters.
  The lines and the strings of a syntax hold no NUL byte, so comparing \<open>len\<close> bytes
  is comparing the two byte lists.
\<close>

definition ascii_tolower :: "char \<Rightarrow> char" where
  "ascii_tolower c =
     (let n = (of_char c :: nat) in if 65 \<le> n \<and> n \<le> 90 then char_of (n + 32) else c)"

definition slice :: "string \<Rightarrow> int \<Rightarrow> int \<Rightarrow> string" where
  "slice line from to = take (nat (to - from)) (drop (nat from) line)"

definition is_buffered :: "string \<Rightarrow> bool \<Rightarrow> string \<Rightarrow> bool" where
  "is_buffered cond_str icase str =
     (if length str \<noteq> length cond_str then False
      else if icase then map ascii_tolower cond_str = map ascii_tolower str
      else cond_str = str)"

definition in_list :: "string list \<Rightarrow> bool \<Rightarrow> string \<Rightarrow> bool" where
  "in_list strings icase str =
     (if icase then list_ex (\<lambda>s. map ascii_tolower str = map ascii_tolower s) strings
      else list_ex (\<lambda>s. str = s) strings)"

text \<open>
  \<^verbatim>\<open>in_hash\<close> walks the chain of the bucket that \<^verbatim>\<open>buf_hash\<close> selects. A
  string of the list sits in the bucket of its own hash, so the walk finds a string
  exactly when the list holds it.
\<close>

definition in_hash :: "string list \<Rightarrow> bool \<Rightarrow> string \<Rightarrow> bool" where
  "in_hash strings icase str =
     (if icase
      then list_ex (\<lambda>h. length str = length h \<and> map ascii_tolower str = map ascii_tolower h) strings
      else list_ex (\<lambda>h. length str = length h \<and> str = h) strings)"

text \<open>\<^verbatim>\<open>for (idx = from; idx < to; idx++) colors[idx] = c;\<close>\<close>

definition paint :: "colors \<Rightarrow> int \<Rightarrow> int \<Rightarrow> color_ref \<Rightarrow> colors" where
  "paint cs from to c = fold (\<lambda>idx cs. cs[idx := Some c]) [nat from ..< nat to] cs"

subsection \<open>highlight\_line\<close>

text \<open>
  One walk over the conditions of the current state (the \<^verbatim>\<open>for\<close> loop over
  \<^verbatim>\<open>ci\<close>). A condition that fires leaves through \<^verbatim>\<open>goto top\<close> with a new
  state, \<open>i\<close>, \<open>sidx\<close> and colours; a condition that ends in \<^verbatim>\<open>break\<close> hands
  over to the next condition. The walk that reaches the end of the list falls through to
  the default action.
\<close>

datatype walk_result =
    Goto_top state_ref int int colors
  | Fall_through int colors

fun walk :: "condition list \<Rightarrow> string \<Rightarrow> int \<Rightarrow> int \<Rightarrow> colors \<Rightarrow> walk_result" where
  "walk [] line i sidx cs = Fall_through sidx cs"
| "walk (COND_CHAR_BUFFER bitmap a # rest) line i sidx cs =
     (if \<not> bitmap_get bitmap (of_char (line ! nat i)) then walk rest line i sidx cs
      else Goto_top (destination a) (i + 1) (if sidx < 0 then i else sidx)
             (cs[nat i := Some (emit_color a)]))"
| "walk (COND_BUFIS str icase a # rest) line i sidx cs =
     (if sidx \<ge> 0 \<and> is_buffered str icase (slice line sidx i)
      then Goto_top (destination a) i (- 1) (paint cs sidx i (emit_color a))
      else walk rest line i sidx cs)"
| "walk (COND_CHAR bitmap a # rest) line i sidx cs =
     (if \<not> bitmap_get bitmap (of_char (line ! nat i)) then walk rest line i sidx cs
      else Goto_top (destination a) (i + 1) (- 1) (cs[nat i := Some (emit_color a)]))"
| "walk (COND_INLIST strings icase a # rest) line i sidx cs =
     (if sidx \<ge> 0 \<and> in_list strings icase (slice line sidx i)
      then Goto_top (destination a) i (- 1) (paint cs sidx i (emit_color a))
      else walk rest line i sidx cs)"
| "walk (COND_INLIST_HASH strings icase a # rest) line i sidx cs =
     (if sidx \<ge> 0 \<and> in_hash strings icase (slice line sidx i)
      then Goto_top (destination a) i (- 1) (paint cs sidx i (emit_color a))
      else walk rest line i sidx cs)"
| "walk (COND_RECOLOR n a # rest) line i sidx cs =
     (let idx = i - n;
          idx = (if idx < 0 then 0 else idx)
      in walk rest line i sidx (paint cs idx i (emit_color a)))"
| "walk (COND_RECOLOR_BUFFER a # rest) line i sidx cs =
     (if sidx \<ge> 0 then walk rest line i (- 1) (paint cs sidx i (emit_color a))
      else walk rest line i sidx cs)"
| "walk (COND_STR str a # rest) line i sidx cs =
     (let slen = int (length str);
          end = i + slen
      in if int (length line) \<ge> end \<and> str = slice line i end
         then Goto_top (destination a) end (- 1) (paint cs i end (emit_color a))
         else walk rest line i sidx cs)"
| "walk (COND_STR_ICASE str a # rest) line i sidx cs =
     (let slen = int (length str);
          end = i + slen
      in if int (length line) \<ge> end
            \<and> map ascii_tolower str = map ascii_tolower (slice line i end)
         then Goto_top (destination a) end (- 1) (paint cs i end (emit_color a))
         else walk rest line i sidx cs)"
| "walk (COND_STR2 str a # rest) line i sidx cs =
     (if line ! nat i = str ! 0 \<and> int (length line) - i > 1 \<and> line ! nat (i + 1) = str ! 1
      then Goto_top (destination a) (i + 2) (- 1)
             (cs[nat i := Some (emit_color a), nat (i + 1) := Some (emit_color a)])
      else walk rest line i sidx cs)"

text \<open>
  One round of the \<^verbatim>\<open>while (1)\<close> loop, entered at \<^verbatim>\<open>top\<close> with
  \<open>i < len\<close>: the walk, and the default action of the state when no condition fired.
  The result is the configuration with which the loop goes on.
\<close>

definition hl_round ::
  "syn_store \<Rightarrow> string \<Rightarrow> state_ref \<Rightarrow> int \<Rightarrow> int \<Rightarrow> colors \<Rightarrow> state_ref \<times> int \<times> int \<times> colors" where
  "hl_round sy line state i sidx cs =
     (case walk (conditions (sy state)) line i sidx cs of
        Goto_top state' i' sidx' cs' \<Rightarrow> (state', i', sidx', cs')
      | Fall_through sidx' cs' \<Rightarrow>
          (let a = state_a (sy state)
           in if \<not> noeat (sy state)
              then (destination a, i + 1, - 1, cs'[nat i := Some (emit_color a)])
              else (destination a, i, - 1, cs')))"

text \<open>
  The loop itself. A syntax with a cycle of \<^verbatim>\<open>noeat\<close> states never leaves
  it, so the loop is a partial function: \<open>None\<close> is "does not return".
\<close>

partial_function (option) highlight_loop ::
  "syn_store \<Rightarrow> string \<Rightarrow> state_ref \<Rightarrow> int \<Rightarrow> int \<Rightarrow> colors \<Rightarrow> (colors \<times> state_ref) option" where
  "highlight_loop sy line state i sidx cs =
     (if i = int (length line) then Some (cs, state)
      else case hl_round sy line state i sidx cs of
             (state', i', sidx', cs') \<Rightarrow> highlight_loop sy line state' i' sidx' cs')"

declare highlight_loop.simps [code]

text \<open>
  Errors of the highlighter: a failed \<^verbatim>\<open>BUG_ON\<close>, an access to the array of
  line start states below index 0, and a walk started from a NULL state pointer.
\<close>

datatype hl_error = BUG_ON | Out_of_bounds | Null_state

text \<open>
  \<^verbatim>\<open>highlight_line(state, line, len, &ret)\<close>. An empty line returns the state
  pointer it was given, NULL included; any other line reads through the pointer.
\<close>

definition highlight_line ::
  "syn_store \<Rightarrow> state_ref option \<Rightarrow> string \<Rightarrow> (hl_error + colors \<times> state_ref option) option" where
  "highlight_line sy state line =
     (if line = [] then Some (Inr ([], state))
      else case state of
             None \<Rightarrow> Some (Inl Null_state)
           | Some st \<Rightarrow>
               (case highlight_loop sy line st 0 (- 1) (replicate (length line) None) of
                  None \<Rightarrow> None
                | Some (cs, st') \<Rightarrow> Some (Inr (cs, Some st'))))"

subsection \<open>The line start states of a buffer\<close>

text \<open>
  Modelled from the spec: \<^verbatim>\<open>struct buffer\<close> and \<^verbatim>\<open>struct ptr_array\<close> are
  declared in headers that are not among the sources. The line colour cache is a
  resizable array of optional state references indexed by line number, plus the integer
  \<^verbatim>\<open>first_hole\<close>. The fields that hl.c uses are the syntax pointer
  \<^verbatim>\<open>syn\<close>, the pointer array \<^verbatim>\<open>line_start_states\<close> (its cells
  \<^verbatim>\<open>ptrs\<close> and its length \<^verbatim>\<open>count\<close>, which hl.c compares with and
  assigns from \<^verbatim>\<open>int\<close> values) and \<^verbatim>\<open>first_hole\<close>. A cell holds a state
  pointer, \<open>None\<close> for NULL. Cells are addressed by a C \<^verbatim>\<open>int\<close>; the places
  where the code can compute a negative index are guarded in the model and give
  \<open>Out_of_bounds\<close>. \<^verbatim>\<open>resize_line_states\<close> only makes room, so it does not
  show in the model.
\<close>

record buffer =
  syn :: "syn_store option"
  ptrs :: "int \<Rightarrow> state_ref option"
  count :: int
  first_hole :: int

definition move_line_states ::
  "(int \<Rightarrow> state_ref option) \<Rightarrow> int \<Rightarrow> int \<Rightarrow> int \<Rightarrow> (int \<Rightarrow> state_ref option)" where
  "move_line_states p to from cnt =
     (\<lambda>k. if to \<le> k \<and> k < to + cnt then p (k - to + from) else p k)"

definition truncate_line_states :: "buffer \<Rightarrow> int \<Rightarrow> hl_error + buffer" where
  "truncate_line_states b cnt =
     (if first_hole b > count b then Inl BUG_ON
      else let b = b\<lparr>count := cnt\<rparr>
           in if first_hole b > count b then Inr (b\<lparr>first_hole := count b\<rparr>) else Inr b)"

definition new_hole :: "buffer \<Rightarrow> int \<Rightarrow> buffer" where
  "new_hole b idx =
     (if idx = first_hole b then b
      else if idx > first_hole b
      then (if idx < count b then b\<lparr>ptrs := (ptrs b)(idx := None)\<rparr> else b)
      else (let b = (if first_hole b < count b
                     then b\<lparr>ptrs := (ptrs b)(first_hole b := None)\<rparr> else b)
            in b\<lparr>first_hole := idx\<rparr>))"

function find_hole_pos :: "(int \<Rightarrow> state_ref option) \<Rightarrow> int \<Rightarrow> int \<Rightarrow> int" where
  "find_hole_pos p cnt pos =
     (if pos < cnt \<and> p pos \<noteq> None then find_hole_pos p cnt (pos + 1) else pos)"
  by pat_completeness auto
termination
  by (relation "measure (\<lambda>(p, cnt, pos). nat (cnt - pos))") auto

declare find_hole_pos.simps [simp del]

definition find_hole :: "buffer \<Rightarrow> int \<Rightarrow> buffer" where
  "find_hole b pos = b\<lparr>first_hole := find_hole_pos (ptrs b) (count b) pos\<rparr>"

text \<open>
  The body of the loop of \<^verbatim>\<open>hl_fill_start_states\<close> after its two exits: the
  line before the first hole is highlighted from its start state and the state it ends
  in goes to the next cell. \<open>line_at n\<close> is the line that the block iterator yields
  after moving down \<open>n\<close> lines from the start of the buffer
  (\<^verbatim>\<open>block_iter_move_down\<close>, \<^verbatim>\<open>fill_line_nl_ref\<close>).
\<close>

definition fill_step ::
  "syn_store \<Rightarrow> (int \<Rightarrow> string) \<Rightarrow> buffer \<Rightarrow> (hl_error + buffer) option" where
  "fill_step sy line_at b =
     (let current_line = first_hole b - 1;
          idx = current_line
      in if idx < 0 then Some (Inl Out_of_bounds)
         else case highlight_line sy (ptrs b idx) (line_at current_line) of
                None \<Rightarrow> None
              | Some (Inl e) \<Rightarrow> Some (Inl e)
              | Some (Inr (cs, st)) \<Rightarrow>
                  (let idx = idx + 1
                   in if idx > count b then Some (Inl BUG_ON)
                      else if idx = count b
                      then Some (Inr (b\<lparr>ptrs := (ptrs b)(idx := st), count := count b + 1,
                                         first_hole := count b + 1\<rparr>))
                      else if ptrs b idx = None
                      then Some (Inr (b\<lparr>ptrs := (ptrs b)(idx := st),
                                         first_hole := first_hole b + 1\<rparr>))
                      else if ptrs b idx = st
                      then Some (Inr (find_hole b (idx + 1)))
                      else Some (Inr (b\<lparr>ptrs := (ptrs b)(idx := st), first_hole := idx + 1\<rparr>))))"

partial_function (option) fill_loop ::
  "syn_store \<Rightarrow> (int \<Rightarrow> string) \<Rightarrow> int \<Rightarrow> buffer \<Rightarrow> (hl_error + buffer) option" where
  "fill_loop sy line_at line_nr b =
     (if first_hole b > count b then Some (Inl BUG_ON)
      else if first_hole b > line_nr then Some (Inr b)
      else case fill_step sy line_at b of
             None \<Rightarrow> None
           | Some (Inl e) \<Rightarrow> Some (Inl e)
           | Some (Inr b') \<Rightarrow> fill_loop sy line_at line_nr b')"

declare fill_loop.simps [code]

definition hl_fill_start_states ::
  "(int \<Rightarrow> string) \<Rightarrow> buffer \<Rightarrow> int \<Rightarrow> (hl_error + buffer) option" where
  "hl_fill_start_states line_at b line_nr =
     (case syn b of
        None \<Rightarrow> Some (Inr b)
      | Some sy \<Rightarrow> fill_loop sy line_at line_nr b)"

text \<open>
  \<^verbatim>\<open>hl_line(line, len, line_nr, &next_changed)\<close> returns the colours (NULL
  without a syntax) and \<^verbatim>\<open>next_changed\<close>, and updates the buffer.
\<close>

definition hl_line ::
  "buffer \<Rightarrow> string \<Rightarrow> int \<Rightarrow> (hl_error + buffer \<times> colors option \<times> bool) option" where
  "hl_line b line line_nr =
     (case syn b of
        None \<Rightarrow> Some (Inr (b, None, False))
      | Some sy \<Rightarrow>
          if line_nr \<ge> count b then Some (Inl BUG_ON)
          else if line_nr < 0 then Some (Inl Out_of_bounds)
          else case highlight_line sy (ptrs b line_nr) line of
                 None \<Rightarrow> None
               | Some (Inl e) \<Rightarrow> Some (Inl e)
               | Some (Inr (cs, next)) \<Rightarrow>
                   (let line_nr = line_nr + 1
                    in if line_nr = count b
                       then Some (Inr (b\<lparr>ptrs := (ptrs b)(count b := next), count := count b + 1,
                                           first_hole := count b + 1\<rparr>, Some cs, True))
                       else if ptrs b line_nr = None
                       then Some (Inr (b\<lparr>ptrs := (ptrs b)(line_nr := next),
                                           first_hole := line_nr + 1\<rparr>, Some cs, True))
                       else if line_nr = first_hole b
                       then (if ptrs b line_nr = next
                             then Some (Inr (find_hole b (line_nr + 1), Some cs, False))
                             else Some (Inr (b\<lparr>ptrs := (ptrs b)(first_hole b := next),
                                                 first_hole := first_hole b + 1\<rparr>, Some cs, True)))
                       else if ptrs b line_nr \<noteq> next then Some (Inl BUG_ON)
                       else Some (Inr (b, Some cs, False))))"

text \<open>\<^verbatim>\<open>for (i = from; i <= to; i++) s->ptrs[i] = NULL;\<close>\<close>

definition set_null :: "(int \<Rightarrow> state_ref option) \<Rightarrow> int \<Rightarrow> int \<Rightarrow> (int \<Rightarrow> state_ref option)" where
  "set_null p from to = (\<lambda>k. if from \<le> k \<and> k \<le> to then None else p k)"

definition hl_insert :: "buffer \<Rightarrow> int \<Rightarrow> int \<Rightarrow> hl_error + buffer" where
  "hl_insert b first lines =
     (let last = first + lines
      in if first \<ge> count b then Inr b
         else if last + 1 \<ge> count b then truncate_line_states b (first + 1)
         else let b = (if lines \<noteq> 0
                       then (let to = last + 1; from = first + 1
                             in b\<lparr>ptrs := move_line_states (ptrs b) to from (count b - from),
                                  count := count b + lines\<rparr>)
                       else b);
                  b = (if first \<noteq> last
                       then b\<lparr>ptrs := set_null (ptrs b) (first + 1) (last + 1)\<rparr>
                       else b)
              in Inr (new_hole b (first + 1)))"

definition hl_delete :: "buffer \<Rightarrow> int \<Rightarrow> int \<Rightarrow> hl_error + buffer" where
  "hl_delete b first deleted_nl =
     (let last = first + deleted_nl
      in if count b = 1 then Inr b
         else if first \<ge> count b then Inr b
         else if last + 1 \<ge> count b then truncate_line_states b (count b - deleted_nl)
         else let b = (if deleted_nl \<noteq> 0
                       then (let to = first + 1; from = last + 1
                             in b\<lparr>ptrs := move_line_states (ptrs b) to from (count b - from),
                                  count := count b - deleted_nl\<rparr>)
                       else b)
              in Inr (new_hole b (first + 1)))"

section \<open>The pipeline (spawn.c)\<close>

subsection \<open>System calls as events\<close>

text \<open>
  The functions of spawn.c act through system calls. The model gets the result of every
  call from an outcome record and writes down each call that it makes, in the order of
  the code, together with the messages given to \<^verbatim>\<open>error_msg\<close> and
  \<^verbatim>\<open>perror_msg\<close>.
\<close>

datatype errno = EINTR | Other_errno

datatype event =
    Ev_poll
  | Ev_select
  | Ev_read int
  | Ev_write int nat
  | Ev_close int
  | Ev_open int
  | Ev_pipe int int
  | Ev_fork int
  | Ev_wait int
  | Ev_yield_terminal bool
  | Ev_resume_terminal bool bool
  | Ev_msg string

text \<open>The bits of \<^verbatim>\<open>revents\<close>, with their values in \<^verbatim>\<open><poll.h>\<close>.\<close>

definition POLLIN :: "16 word" where "POLLIN = 1"
definition POLLOUT :: "16 word" where "POLLOUT = 4"
definition POLLERR :: "16 word" where "POLLERR = 8"
definition POLLHUP :: "16 word" where "POLLHUP = 16"
definition POLLNVAL :: "16 word" where "POLLNVAL = 32"

text \<open>
  What the system answers in one round of the loop of \<^verbatim>\<open>filter\<close>: the result of
  \<^verbatim>\<open>poll\<close> with \<^verbatim>\<open>errno\<close> and the two \<^verbatim>\<open>revents\<close>, the results of
  \<^verbatim>\<open>xread\<close> and \<^verbatim>\<open>xwrite\<close>, and the results of the three calls of
  \<^verbatim>\<open>xclose\<close> (after the last write, and for each descriptor that hung up).
\<close>

record poll_outcome =
  poll_ret :: int
  poll_errno :: errno
  revents0 :: "16 word"
  revents1 :: "16 word"
  read_ret :: int
  write_ret :: int
  close_ret :: int
  hup_close_ret0 :: int
  hup_close_ret1 :: int

text \<open>
  The variables of \<^verbatim>\<open>filter\<close>: \<^verbatim>\<open>fds[0].fd\<close>, \<^verbatim>\<open>fds[1].fd\<close>,
  \<^verbatim>\<open>wlen\<close> and \<^verbatim>\<open>ctx->output.len\<close>.
\<close>

record filter_state =
  fd0 :: int
  fd1 :: int
  wlen :: nat
  output_len :: nat

datatype loop_ctl = Continue | Break

subsection \<open>filter\<close>

text \<open>The block under \<^verbatim>\<open>fds[0].revents & POLLIN\<close>.\<close>

definition filter_read ::
  "nat \<Rightarrow> poll_outcome \<Rightarrow> filter_state \<Rightarrow> 16 word \<Rightarrow> loop_ctl \<times> filter_state \<times> event list" where
  "filter_read input_length e s r0 =
     (if r0 AND POLLIN \<noteq> 0
      then (if read_ret e < 0 then (Break, s, [Ev_read (fd0 s), Ev_msg ''read''])
            else if read_ret e = 0
            then (if wlen s < input_length
                  then (Break, s, [Ev_read (fd0 s), Ev_msg ''Command did not read all data''])
                  else (Break, s, [Ev_read (fd0 s)]))
            else (Continue, s\<lparr>output_len := output_len s + nat (read_ret e)\<rparr>,
                  [Ev_read (fd0 s)]))
      else (Continue, s, []))"

text \<open>The block under \<^verbatim>\<open>fds[1].revents & POLLOUT\<close>.\<close>

definition filter_write ::
  "nat \<Rightarrow> poll_outcome \<Rightarrow> filter_state \<Rightarrow> 16 word \<Rightarrow> loop_ctl \<times> filter_state \<times> event list" where
  "filter_write input_length e s r1 =
     (if r1 AND POLLOUT \<noteq> 0
      then (let w = Ev_write (fd1 s) (input_length - wlen s)
            in if write_ret e < 0 then (Break, s, [w, Ev_msg ''write''])
               else let s' = s\<lparr>wlen := wlen s + nat (write_ret e)\<rparr>
                    in if wlen s' = input_length
                       then (if close_ret e \<noteq> 0
                             then (Break, s', [w, Ev_close (fd1 s), Ev_msg ''close''])
                             else (Continue, s'\<lparr>fd1 := - 1\<rparr>, [w, Ev_close (fd1 s)]))
                       else (Continue, s', [w]))
      else (Continue, s, []))"

text \<open>
  One round of the \<^verbatim>\<open>for\<close> loop that counts the active descriptors, for the
  descriptor \<open>fd\<close> with its \<^verbatim>\<open>revents\<close>: the new descriptor, whether it
  still counts as active, and the events.
\<close>

definition filter_hup :: "int \<Rightarrow> 16 word \<Rightarrow> int \<Rightarrow> int \<times> bool \<times> event list" where
  "filter_hup fd r close_result =
     (if fd < 0 \<or> r AND POLLNVAL \<noteq> 0 then (- 1, False, [])
      else if r AND (POLLHUP OR POLLERR) \<noteq> 0
      then (- 1, False, Ev_close fd # (if close_result \<noteq> 0 then [Ev_msg ''close''] else []))
      else (fd, True, []))"

text \<open>
  One round of \<^verbatim>\<open>while (1)\<close>. \<^verbatim>\<open>poll\<close> ignores a negative descriptor and
  reports no event for it.
\<close>

definition filter_iter ::
  "nat \<Rightarrow> poll_outcome \<Rightarrow> filter_state \<Rightarrow> loop_ctl \<times> filter_state \<times> event list" where
  "filter_iter input_length e s =
     (if poll_ret e < 0
      then (if poll_errno e = EINTR then (Continue, s, [Ev_poll])
            else (Break, s, [Ev_poll, Ev_msg ''poll'']))
      else let r0 = (if fd0 s < 0 then 0 else revents0 e);
               r1 = (if fd1 s < 0 then 0 else revents1 e)
           in case filter_read input_length e s r0 of
                (Break, s1, ev1) \<Rightarrow> (Break, s1, Ev_poll # ev1)
              | (Continue, s1, ev1) \<Rightarrow>
                  (case filter_write input_length e s1 r1 of
                     (Break, s2, ev2) \<Rightarrow> (Break, s2, Ev_poll # ev1 @ ev2)
                   | (Continue, s2, ev2) \<Rightarrow>
                       (case filter_hup (fd0 s2) r0 (hup_close_ret0 e) of
                          (f0, active0, ev3) \<Rightarrow>
                            (case filter_hup (fd1 s2) r1 (hup_close_ret1 e) of
                               (f1, active1, ev4) \<Rightarrow>
                                 (if \<not> active0 \<and> \<not> active1 then Break else Continue,
                                  s2\<lparr>fd0 := f0, fd1 := f1\<rparr>,
                                  Ev_poll # ev1 @ ev2 @ ev3 @ ev4)))))"

text \<open>
  The loop, driven by the list of what the system answers round by round. When the list
  ends before the loop is left, the process is still blocked in \<^verbatim>\<open>poll\<close>:
  \<open>None\<close>.
\<close>

fun filter_loop ::
  "nat \<Rightarrow> poll_outcome list \<Rightarrow> filter_state \<Rightarrow> event list \<Rightarrow> (filter_state \<times> event list) option" where
  "filter_loop input_length [] s evs = None"
| "filter_loop input_length (e # es) s evs =
     (case filter_iter input_length e s of
        (Break, s', ev) \<Rightarrow> Some (s', evs @ ev)
      | (Continue, s', ev) \<Rightarrow> filter_loop input_length es s' (evs @ ev))"

datatype spawn_bug = BUG

definition filter ::
  "int \<Rightarrow> int \<Rightarrow> nat \<Rightarrow> poll_outcome list \<Rightarrow> (spawn_bug + filter_state \<times> event list) option" where
  "filter rfd wfd input_length es =
     (if rfd < 0 \<and> wfd < 0 then Some (Inl BUG)
      else if rfd \<ge> 0 \<and> rfd \<le> 2 then Some (Inl BUG)
      else if wfd \<ge> 0 \<and> wfd \<le> 2 then Some (Inl BUG)
      else case filter_loop input_length es
                  \<lparr>fd0 = rfd, fd1 = (if input_length = 0 then - 1 else wfd), wlen = 0,
                   output_len = 0\<rparr>
                  (if input_length = 0 then [Ev_close wfd] else []) of
             None \<Rightarrow> None
           | Some r \<Rightarrow> Some (Inr r))"

subsection \<open>spawn\<close>

text \<open>
  Modelled from the spec: \<^verbatim>\<open>SpawnAction\<close> is declared in spawn.h, which is not
  among the sources. Each of the three child descriptors is set from a tagged choice:
  connect to \<^verbatim>\<open>/dev/null\<close>, inherit the terminal, or create a pipe.
\<close>

datatype spawn_action = SPAWN_NULL | SPAWN_TTY | SPAWN_PIPE

text \<open>
  What the system answers to \<^verbatim>\<open>spawn\<close>: for each of the three descriptors the
  result of \<^verbatim>\<open>open_dev_null\<close> and of \<^verbatim>\<open>pipe_cloexec\<close> with the two ends of
  the pipe, then the results of \<^verbatim>\<open>fork_exec\<close>, of the rounds of \<^verbatim>\<open>filter\<close>,
  of \<^verbatim>\<open>xwrite_all\<close>, of the successive calls of \<^verbatim>\<open>xread_all\<close> and of
  \<^verbatim>\<open>wait_child\<close>.
\<close>

record spawn_outcome =
  open_ret :: "nat \<Rightarrow> int"
  pipe_ret :: "nat \<Rightarrow> bool \<times> int \<times> int"
  fork_ret :: int
  filter_rounds :: "poll_outcome list"
  write_all_ret :: int
  read_all_rets :: "int list"
  wait_ret :: int

definition safe_xclose :: "int \<Rightarrow> event list" where
  "safe_xclose fd = (if fd > 2 then [Ev_close fd] else [])"

definition open_dev_null :: "int \<Rightarrow> event list" where
  "open_dev_null fd =
     (if fd < 0 then [Ev_open fd, Ev_msg ''Error opening /dev/null''] else [Ev_open fd])"

datatype setup_result =
    Setup_ok "int list" "int list" "event list"
  | Setup_error_close "int list" "int list" "event list"
  | Setup_bug

text \<open>The body of the \<^verbatim>\<open>for\<close> loop over the three actions, for index \<open>i\<close>.\<close>

definition spawn_setup_fd ::
  "spawn_outcome \<Rightarrow> bool \<Rightarrow> spawn_action \<Rightarrow> nat \<Rightarrow> int list \<Rightarrow> int list \<Rightarrow> event list \<Rightarrow> setup_result" where
  "spawn_setup_fd env quiet act i child_fds parent_fds evs =
     (if act = SPAWN_TTY \<and> \<not> quiet then Setup_ok (child_fds[i := int i]) parent_fds evs
      else if act = SPAWN_TTY \<or> act = SPAWN_NULL
      then (let fd = open_ret env i;
                child_fds = child_fds[i := fd];
                evs = evs @ open_dev_null fd
            in if fd < 0 then Setup_error_close child_fds parent_fds evs
               else Setup_ok child_fds parent_fds evs)
      else (case pipe_ret env i of
              (ok, p0, p1) \<Rightarrow>
                if \<not> ok then Setup_error_close child_fds parent_fds (evs @ [Ev_msg ''pipe''])
                else if p0 < 3 \<or> p1 < 3 then Setup_bug
                else Setup_ok (child_fds[i := (if i \<noteq> 0 then p1 else p0)])
                       (parent_fds[i := (if i \<noteq> 0 then p0 else p1)])
                       (evs @ [Ev_pipe p0 p1])))"

fun spawn_setup ::
  "spawn_outcome \<Rightarrow> bool \<Rightarrow> spawn_action list \<Rightarrow> nat list \<Rightarrow> int list \<Rightarrow> int list \<Rightarrow> event list
     \<Rightarrow> setup_result" where
  "spawn_setup env quiet actions [] child_fds parent_fds evs = Setup_ok child_fds parent_fds evs"
| "spawn_setup env quiet actions (i # is) child_fds parent_fds evs =
     (case spawn_setup_fd env quiet (actions ! i) i child_fds parent_fds evs of
        Setup_ok c p evs' \<Rightarrow> spawn_setup env quiet actions is c p evs'
      | r \<Rightarrow> r)"

text \<open>The label \<^verbatim>\<open>error_close\<close>.\<close>

definition error_close :: "int list \<Rightarrow> int list \<Rightarrow> event list" where
  "error_close child_fds parent_fds =
     concat (map (\<lambda>i. safe_xclose (child_fds ! i) @ safe_xclose (parent_fds ! i)) [0, 1, 2])"

text \<open>The loop that reads the output when only stdout is a pipe.\<close>

fun read_all_loop :: "int \<Rightarrow> int list \<Rightarrow> event list \<Rightarrow> (bool \<times> event list) option" where
  "read_all_loop fd [] evs = None"
| "read_all_loop fd (rc # rcs) evs =
     (if rc < 0 then Some (False, evs @ [Ev_read fd, Ev_msg ''read''])
      else if rc = 0 then Some (True, evs @ [Ev_read fd])
      else read_all_loop fd rcs (evs @ [Ev_read fd]))"

definition handle_child_error :: "int \<Rightarrow> event list" where
  "handle_child_error ret =
     (if ret < 0 then [Ev_wait ret, Ev_msg ''waitpid'']
      else if ret \<ge> 256 then [Ev_wait ret, Ev_msg ''Child received signal'']
      else if ret \<noteq> 0 then [Ev_wait ret, Ev_msg ''Child returned'']
      else [Ev_wait ret])"

text \<open>
  The part of \<^verbatim>\<open>spawn\<close> between the closing of the child ends and the closing of
  the parent ends: \<open>Some (True, evs)\<close> when it runs through, \<open>Some (False, evs)\<close> when
  it leaves through \<^verbatim>\<open>goto error_resume\<close>.
\<close>

definition spawn_io ::
  "spawn_outcome \<Rightarrow> spawn_action list \<Rightarrow> int list \<Rightarrow> nat
     \<Rightarrow> (spawn_bug + bool \<times> event list) option" where
  "spawn_io env actions parent_fds input_length =
     (if actions ! 0 = SPAWN_PIPE \<and> actions ! 1 = SPAWN_PIPE
      then (case filter (parent_fds ! 1) (parent_fds ! 0) input_length (filter_rounds env) of
              None \<Rightarrow> None
            | Some (Inl b) \<Rightarrow> Some (Inl b)
            | Some (Inr (s, evs)) \<Rightarrow> Some (Inr (True, evs)))
      else if actions ! 0 = SPAWN_PIPE
      then (if input_length \<noteq> 0 \<and> write_all_ret env < 0
            then Some (Inr (False, [Ev_write (parent_fds ! 0) input_length, Ev_msg ''write'']))
            else if input_length \<noteq> 0
            then Some (Inr (True, [Ev_write (parent_fds ! 0) input_length]))
            else Some (Inr (True, [])))
      else if actions ! 1 = SPAWN_PIPE
      then (case read_all_loop (parent_fds ! 1) (read_all_rets env) [] of
              None \<Rightarrow> None
            | Some r \<Rightarrow> Some (Inr r))
      else Some (Inr (True, [])))"

text \<open>
  \<^verbatim>\<open>spawn(ctx, actions)\<close> with \<open>quiet\<close> and \<open>prompt\<close> the two bits of
  \<^verbatim>\<open>ctx->flags\<close> and \<open>input_length\<close> the length of \<^verbatim>\<open>ctx->input\<close>. The
  result is the value returned and the events, \<open>Inl BUG\<close> when an assertion fails, and
  \<open>None\<close> while the process is blocked on the child.
\<close>

definition spawn ::
  "spawn_outcome \<Rightarrow> bool \<Rightarrow> bool \<Rightarrow> nat \<Rightarrow> spawn_action list
     \<Rightarrow> (spawn_bug + bool \<times> event list) option" where
  "spawn env quiet prompt input_length actions =
     (if actions ! 2 = SPAWN_PIPE then Some (Inl BUG)
      else case spawn_setup env quiet actions [0, 1, 2] [- 1, - 1, - 1] [- 1, - 1, - 1] [] of
        Setup_bug \<Rightarrow> Some (Inl BUG)
      | Setup_error_close child_fds parent_fds evs \<Rightarrow>
          Some (Inr (False, evs @ error_close child_fds parent_fds))
      | Setup_ok child_fds parent_fds evs \<Rightarrow>
          (let evs = evs @ [Ev_yield_terminal quiet, Ev_fork (fork_ret env)]
           in if fork_ret env < 0
              then Some (Inr (False, evs @ [Ev_msg ''Unable to exec'', Ev_resume_terminal quiet False]
                                 @ error_close child_fds parent_fds))
              else let evs = evs @ safe_xclose (child_fds ! 0) @ safe_xclose (child_fds ! 1)
                                 @ safe_xclose (child_fds ! 1)
                   in case spawn_io env actions parent_fds input_length of
                        None \<Rightarrow> None
                      | Some (Inl b) \<Rightarrow> Some (Inl b)
                      | Some (Inr (False, io)) \<Rightarrow>
                          Some (Inr (False, evs @ io @ [Ev_resume_terminal quiet False]
                                       @ error_close child_fds parent_fds))
                      | Some (Inr (True, io)) \<Rightarrow>
                          (let evs = evs @ io @ safe_xclose (parent_fds ! 0)
                                       @ safe_xclose (parent_fds ! 1) @ safe_xclose (parent_fds ! 2)
                                       @ handle_child_error (wait_ret env)
                                       @ [Ev_resume_terminal quiet prompt]
                           in Some (Inr (wait_ret env = 0, evs)))))"

subsection \<open>filter, with select\<close>

text \<open>
  The file spawn.c at the top of the source tree holds an older \<^verbatim>\<open>filter\<close>, which
  waits with \<^verbatim>\<open>select\<close>. What the system answers in one round: the result of
  \<^verbatim>\<open>select\<close> with \<^verbatim>\<open>errno\<close>, whether the two descriptors are set afterwards,
  and the results of \<^verbatim>\<open>read\<close> and \<^verbatim>\<open>write\<close>. The variables are \<^verbatim>\<open>rfd\<close>,
  \<^verbatim>\<open>wfd\<close>, \<^verbatim>\<open>wlen\<close> and \<^verbatim>\<open>buf.len\<close>, kept in the same record as above.
\<close>

record select_outcome =
  select_ret :: int
  select_errno :: errno
  rfd_isset :: bool
  wfd_isset :: bool
  sel_read_ret :: int
  sel_write_ret :: int

text \<open>The block under \<^verbatim>\<open>FD_ISSET(rfd, &rfds)\<close>.\<close>

definition filter_select_read ::
  "nat \<Rightarrow> select_outcome \<Rightarrow> filter_state \<Rightarrow> loop_ctl \<times> filter_state \<times> event list" where
  "filter_select_read in_len e s =
     (if rfd_isset e
      then (if sel_read_ret e < 0 then (Break, s, [Ev_read (fd0 s), Ev_msg ''read''])
            else if sel_read_ret e = 0
            then (if wlen s < in_len
                  then (Break, s, [Ev_read (fd0 s), Ev_msg ''Command did not read all data.''])
                  else (Break, s, [Ev_read (fd0 s)]))
            else (Continue, s\<lparr>output_len := output_len s + nat (sel_read_ret e)\<rparr>,
                  [Ev_read (fd0 s)]))
      else (Continue, s, []))"

text \<open>The block under \<^verbatim>\<open>wfdsp && FD_ISSET(wfd, &wfds)\<close>.\<close>

definition filter_select_write ::
  "nat \<Rightarrow> select_outcome \<Rightarrow> filter_state \<Rightarrow> loop_ctl \<times> filter_state \<times> event list" where
  "filter_select_write in_len e s =
     (if fd1 s \<ge> 0 \<and> wfd_isset e
      then (let w = Ev_write (fd1 s) (in_len - wlen s)
            in if sel_write_ret e < 0 then (Break, s, [w, Ev_msg ''write''])
               else let s' = s\<lparr>wlen := wlen s + nat (sel_write_ret e)\<rparr>
                    in if wlen s' = in_len
                       then (Continue, s'\<lparr>fd1 := - 1\<rparr>, [w, Ev_close (fd1 s)])
                       else (Continue, s', [w]))
      else (Continue, s, []))"

definition filter_select_iter ::
  "nat \<Rightarrow> select_outcome \<Rightarrow> filter_state \<Rightarrow> loop_ctl \<times> filter_state \<times> event list" where
  "filter_select_iter in_len e s =
     (if select_ret e < 0
      then (if select_errno e = EINTR then (Continue, s, [Ev_select])
            else (Break, s, [Ev_select, Ev_msg ''select'']))
      else case filter_select_read in_len e s of
             (Break, s1, ev1) \<Rightarrow> (Break, s1, Ev_select # ev1)
           | (Continue, s1, ev1) \<Rightarrow>
               (case filter_select_write in_len e s1 of
                  (c2, s2, ev2) \<Rightarrow> (c2, s2, Ev_select # ev1 @ ev2)))"

fun filter_select_loop ::
  "nat \<Rightarrow> select_outcome list \<Rightarrow> filter_state \<Rightarrow> event list \<Rightarrow> (filter_state \<times> event list) option" where
  "filter_select_loop in_len [] s evs = None"
| "filter_select_loop in_len (e # es) s evs =
     (case filter_select_iter in_len e s of
        (Break, s', ev) \<Rightarrow> Some (s', evs @ ev)
      | (Continue, s', ev) \<Rightarrow> filter_select_loop in_len es s' (evs @ ev))"

text \<open>
  The older \<^verbatim>\<open>filter(rfd, wfd, fdata)\<close>: the length of the output that it hands
  back in \<^verbatim>\<open>fdata->out_len\<close>, and the events.
\<close>

definition filter_select ::
  "int \<Rightarrow> int \<Rightarrow> nat \<Rightarrow> select_outcome list \<Rightarrow> (nat \<times> event list) option" where
  "filter_select rfd wfd in_len es =
     (case filter_select_loop in_len es
             \<lparr>fd0 = rfd, fd1 = (if in_len = 0 then - 1 else wfd), wlen = 0, output_len = 0\<rparr>
             (if in_len = 0 then [Ev_close wfd] else []) of
        None \<Rightarrow> None
      | Some (s, evs) \<Rightarrow> Some (output_len s, evs))"

section \<open>The exec command (commands.c)\<close>

subsection \<open>Actions and their roles\<close>

datatype exec_action =
    EXEC_BUFFER
  | EXEC_ERRMSG
  | EXEC_EVAL
  | EXEC_LINE
  | EXEC_MSG
  | EXEC_NULL
  | EXEC_OPEN
  | EXEC_TAG
  | EXEC_TTY

text \<open>The bits of \<^verbatim>\<open>ExecFlags\<close>: \<^verbatim>\<open>IN\<close>, \<^verbatim>\<open>OUT\<close>, \<^verbatim>\<open>ERR\<close> and \<^verbatim>\<open>ALL\<close>.\<close>

definition exec_IN :: "8 word" where "exec_IN = push_bit 0 1"
definition exec_OUT :: "8 word" where "exec_OUT = push_bit 1 1"
definition exec_ERR :: "8 word" where "exec_ERR = push_bit 2 1"
definition exec_ALL :: "8 word" where "exec_ALL = exec_IN OR exec_OUT OR exec_ERR"

text \<open>The table \<^verbatim>\<open>exec_map\<close>: name, spawn action and roles of each action.\<close>

fun exec_map :: "exec_action \<Rightarrow> string \<times> spawn_action \<times> 8 word" where
  "exec_map EXEC_BUFFER = (''buffer'', SPAWN_PIPE, exec_IN OR exec_OUT)"
| "exec_map EXEC_ERRMSG = (''errmsg'', SPAWN_PIPE, exec_ERR)"
| "exec_map EXEC_EVAL = (''eval'', SPAWN_PIPE, exec_OUT)"
| "exec_map EXEC_LINE = (''line'', SPAWN_PIPE, exec_IN)"
| "exec_map EXEC_MSG = (''msg'', SPAWN_PIPE, exec_IN OR exec_OUT)"
| "exec_map EXEC_NULL = (''null'', SPAWN_NULL, exec_ALL)"
| "exec_map EXEC_OPEN = (''open'', SPAWN_PIPE, exec_OUT)"
| "exec_map EXEC_TAG = (''tag'', SPAWN_PIPE, exec_OUT)"
| "exec_map EXEC_TTY = (''tty'', SPAWN_TTY, exec_ALL)"

definition exec_name :: "exec_action \<Rightarrow> string" where
  "exec_name a = fst (exec_map a)"

definition exec_spawn_action :: "exec_action \<Rightarrow> spawn_action" where
  "exec_spawn_action a = fst (snd (exec_map a))"

definition exec_flags :: "exec_action \<Rightarrow> 8 word" where
  "exec_flags a = snd (snd (exec_map a))"

text \<open>
  \<^verbatim>\<open>BSEARCH_IDX(flag_arg, exec_map, strcmp)\<close>: the index of the entry with that
  name, \<open>None\<close> for \<open>-1\<close>.
\<close>

definition bsearch_idx :: "string \<Rightarrow> exec_action option" where
  "bsearch_idx flag_arg =
     find (\<lambda>a. exec_name a = flag_arg)
       [EXEC_BUFFER, EXEC_ERRMSG, EXEC_EVAL, EXEC_LINE, EXEC_MSG, EXEC_NULL, EXEC_OPEN,
        EXEC_TAG, EXEC_TTY]"

subsection \<open>The flags of the command\<close>

text \<open>
  The local variables that the loop over the flags sets. \<^verbatim>\<open>spawn_flags\<close> is the
  two bits \<^verbatim>\<open>SPAWN_QUIET\<close> and \<^verbatim>\<open>SPAWN_PROMPT\<close>.
\<close>

record exec_args =
  ex_actions :: "exec_action list"
  ex_spawn_actions :: "spawn_action list"
  ex_quiet :: bool
  ex_prompt :: bool
  lflag :: bool
  move_after_insert :: bool
  strip_trailing_newline :: bool

definition exec_args_init :: exec_args where
  "exec_args_init =
     \<lparr>ex_actions = [EXEC_TTY, EXEC_TTY, EXEC_TTY],
      ex_spawn_actions = [SPAWN_TTY, SPAWN_TTY, SPAWN_TTY],
      ex_quiet = False, ex_prompt = False, lflag = False, move_after_insert = False,
      strip_trailing_newline = False\<rparr>"

datatype exec_error =
    Invalid_action char string
  | Bug_unexpected_flag
  | Bug_unhandled_action
  | Bug_cursor_offset
  | Null_argument

text \<open>
  The body of the loop over \<^verbatim>\<open>a->flags\<close> for the flag \<open>f\<close>, with \<open>x\<close> the
  index of the next flag argument in \<^verbatim>\<open>a->args\<close>. The array of arguments ends
  with NULL, which is what a flag without argument would hand to \<^verbatim>\<open>strcmp\<close>.
\<close>

definition cmd_exec_flag ::
  "char \<Rightarrow> string list \<Rightarrow> nat \<Rightarrow> exec_args \<Rightarrow> exec_error + nat \<times> exec_args" where
  "cmd_exec_flag f args x ea =
     (if f = CHR ''p'' then Inr (x, ea\<lparr>ex_prompt := True\<rparr>)
      else if f = CHR ''s'' then Inr (x, ea\<lparr>ex_quiet := True\<rparr>)
      else if f = CHR ''t'' then Inr (x, ea\<lparr>ex_quiet := False\<rparr>)
      else if f = CHR ''l'' then Inr (x, ea\<lparr>lflag := True\<rparr>)
      else if f = CHR ''m'' then Inr (x, ea\<lparr>move_after_insert := True\<rparr>)
      else if f = CHR ''n'' then Inr (x, ea\<lparr>strip_trailing_newline := True\<rparr>)
      else if f = CHR ''e'' \<or> f = CHR ''i'' \<or> f = CHR ''o''
      then (let fd_idx = (if f = CHR ''e'' then 2 else if f = CHR ''i'' then 0 else 1 :: nat)
            in if x \<ge> length args then Inl Null_argument
               else let flag_arg = args ! x
                    in case bsearch_idx flag_arg of
                         None \<Rightarrow> Inl (Invalid_action f flag_arg)
                       | Some action \<Rightarrow>
                           if exec_flags action AND push_bit fd_idx 1 = 0
                           then Inl (Invalid_action f flag_arg)
                           else Inr (x + 1,
                                  ea\<lparr>ex_actions := (ex_actions ea)[fd_idx := action],
                                      ex_spawn_actions :=
                                        (ex_spawn_actions ea)[fd_idx := exec_spawn_action action]\<rparr>))
      else Inl Bug_unexpected_flag)"

fun cmd_exec_flags :: "char list \<Rightarrow> string list \<Rightarrow> nat \<Rightarrow> exec_args \<Rightarrow> exec_error + exec_args" where
  "cmd_exec_flags [] args x ea = Inr ea"
| "cmd_exec_flags (f # fs) args x ea =
     (case cmd_exec_flag f args x ea of
        Inl e \<Rightarrow> Inl e
      | Inr (x', ea') \<Rightarrow> cmd_exec_flags fs args x' ea')"

subsection \<open>Running the command\<close>

datatype selection_type = SELECT_NONE | SELECT_CHARS | SELECT_LINES

text \<open>
  The fields of \<^verbatim>\<open>View\<close> that the command reads and writes itself; \<open>'c\<close> is
  \<^verbatim>\<open>BlockIter\<close>.
\<close>

record 'c view =
  cursor :: 'c
  selection :: selection_type

text \<open>\<^verbatim>\<open>SpawnContext\<close> as \<^verbatim>\<open>cmd_exec\<close> fills it in.\<close>

record spawn_context =
  argv :: "string list"
  lines_and_columns_env :: bool
  ctx_quiet :: bool
  ctx_prompt :: bool
  input_data :: string
  input_len :: nat

text \<open>
  The functions that \<^verbatim>\<open>cmd_exec\<close> calls and that live in other files are
  parameters: the movements and \<^verbatim>\<open>prepare_selection\<close>, which change the view and
  give a length back, the reads of the buffer, and \<^verbatim>\<open>spawn\<close>, which gives the
  status and the two output strings. The consumers of the output are the last field:
  what each does to the view.
\<close>

datatype routing =
    Replace_bytes nat string
  | Unselect
  | Activate_message string
  | Open_files string
  | Goto_tag string
  | Exec_config string
  | Skip_bytes nat

record 'c editor_ops =
  prepare_selection :: "'c view \<Rightarrow> 'c view \<times> nat"
  move_bol :: "'c view \<Rightarrow> 'c view"
  move_bof :: "'c view \<Rightarrow> 'c view"
  fill_line_ref :: "'c \<Rightarrow> nat"
  buffer_size :: nat
  block_iter_get_bytes :: "'c \<Rightarrow> nat \<Rightarrow> string"
  dump_messages :: string
  spawn_fn :: "spawn_context \<Rightarrow> spawn_action list \<Rightarrow> int \<times> string \<times> string"
  route :: "routing \<Rightarrow> 'c view \<Rightarrow> 'c view"

datatype message = Child_signal int string | Child_returned int string

definition first_line :: "string \<Rightarrow> string" where
  "first_line s = takeWhile (\<lambda>c. c \<noteq> CHR 0x0A) s"

definition show_spawn_error_msg :: "string \<Rightarrow> int \<Rightarrow> message list" where
  "show_spawn_error_msg errstr err =
     (if err \<le> 0 then []
      else let msg = (if errstr \<noteq> [] then first_line errstr else [])
           in if err \<ge> 256 then [Child_signal (err div 256) msg]
              else [Child_returned err msg])"

text \<open>The \<^verbatim>\<open>switch\<close> on the stdin action: the view and the input.\<close>

definition exec_input ::
  "'c editor_ops \<Rightarrow> exec_action \<Rightarrow> 'c view \<Rightarrow> exec_error + 'c view \<times> string \<times> nat" where
  "exec_input ops action v =
     (case action of
        EXEC_LINE \<Rightarrow>
          (let (v, n) = (if selection v \<noteq> SELECT_NONE then prepare_selection ops v
                         else (let v = move_bol ops v in (v, fill_line_ref ops (cursor v))))
           in Inr (v, block_iter_get_bytes ops (cursor v) n, n))
      | EXEC_BUFFER \<Rightarrow>
          (let (v, n) = (if selection v \<noteq> SELECT_NONE then prepare_selection ops v
                         else (move_bof ops v, buffer_size ops))
           in Inr (v, block_iter_get_bytes ops (cursor v) n, n))
      | EXEC_MSG \<Rightarrow> Inr (v, dump_messages ops, length (dump_messages ops))
      | EXEC_NULL \<Rightarrow> Inr (v, [], 0)
      | EXEC_TTY \<Rightarrow> Inr (v, [], 0)
      | _ \<Rightarrow> Inl Bug_unhandled_action)"

definition strip_newline :: "string \<Rightarrow> string" where
  "strip_newline out =
     (if out \<noteq> [] \<and> last out = CHR 0x0A
      then (let out = butlast out
            in if out \<noteq> [] \<and> last out = CHR 0x0D then butlast out else out)
      else out)"

text \<open>
  The \<^verbatim>\<open>switch\<close> on the stdout action: the view and the consumers called, in
  order.
\<close>

definition exec_output ::
  "'c editor_ops \<Rightarrow> exec_action \<Rightarrow> nat \<Rightarrow> string \<Rightarrow> 'c view
     \<Rightarrow> exec_error + 'c view \<times> routing list" where
  "exec_output ops action input_length out v =
     (case action of
        EXEC_BUFFER \<Rightarrow>
          (let (v, del_count) =
                 (if selection v \<noteq> SELECT_NONE \<and> input_length = 0 then prepare_selection ops v
                  else (v, input_length));
               v = route ops (Replace_bytes del_count out) v;
               v = route ops Unselect v
           in Inr (v, [Replace_bytes del_count out, Unselect]))
      | EXEC_MSG \<Rightarrow> Inr (route ops (Activate_message out) v, [Activate_message out])
      | EXEC_OPEN \<Rightarrow> Inr (route ops (Open_files out) v, [Open_files out])
      | EXEC_TAG \<Rightarrow> Inr (route ops (Goto_tag out) v, [Goto_tag out])
      | EXEC_EVAL \<Rightarrow> Inr (route ops (Exec_config out) v, [Exec_config out])
      | EXEC_NULL \<Rightarrow> Inr (v, [])
      | EXEC_TTY \<Rightarrow> Inr (v, [])
      | _ \<Rightarrow> Inl Bug_unhandled_action)"

text \<open>
  \<^verbatim>\<open>cmd_exec\<close> from the line that saves the cursor on: the view at the end, the
  consumers of the output that were called, and the messages shown.
\<close>

definition cmd_exec_run ::
  "'c editor_ops \<Rightarrow> string list \<Rightarrow> exec_args \<Rightarrow> 'c view
     \<Rightarrow> exec_error + 'c view \<times> routing list \<times> message list" where
  "cmd_exec_run ops args ea view =
     (let saved_cursor = cursor view;
          actions = ex_actions ea;
          env = (actions ! 1 = EXEC_BUFFER);
          move_after = (if move_after_insert ea \<and> actions ! 1 \<noteq> EXEC_BUFFER then False
                        else move_after_insert ea);
          actions = (if lflag ea \<and> actions ! 0 = EXEC_BUFFER then actions[0 := EXEC_LINE]
                     else actions)
      in case exec_input ops (actions ! 0) view of
           Inl e \<Rightarrow> Inl e
         | Inr (view, data, n) \<Rightarrow>
             (case spawn_fn ops
                     \<lparr>argv = args, lines_and_columns_env = env, ctx_quiet = ex_quiet ea,
                      ctx_prompt = ex_prompt ea, input_data = data, input_len = n\<rparr>
                     (ex_spawn_actions ea) of
                (err, out0, out1) \<Rightarrow>
                  if err \<noteq> 0
                  then Inr (view\<lparr>cursor := saved_cursor\<rparr>, [], show_spawn_error_msg out1 err)
                  else (let output = (if strip_trailing_newline ea \<and> actions ! 1 = EXEC_BUFFER
                                      then strip_newline out0 else out0)
                        in case exec_output ops (actions ! 1) n output view of
                             Inl e \<Rightarrow> Inl e
                           | Inr (view, routed) \<Rightarrow>
                               if move_after
                               then Inr (route ops (Skip_bytes (length output)) view,
                                         routed @ [Skip_bytes (length output)], [])
                               else Inr (view, routed, []))))"

text \<open>\<^verbatim>\<open>cmd_exec\<close>: the flags, then the run.\<close>

definition cmd_exec ::
  "'c editor_ops \<Rightarrow> char list \<Rightarrow> string list \<Rightarrow> nat \<Rightarrow> 'c view
     \<Rightarrow> exec_error + 'c view \<times> routing list \<times> message list" where
  "cmd_exec ops flags args nr_flag_args view =
     (case cmd_exec_flags flags args 0 exec_args_init of
        Inl e \<Rightarrow> Inl e
      | Inr ea \<Rightarrow> cmd_exec_run ops (drop nr_flag_args args) ea view)"

subsection \<open>handle\_exec (exec.c)\<close>

text \<open>
  Modelled from the spec: exec.c is the exec command of a later revision, whose
  \<^verbatim>\<open>ExecAction\<close> is declared in a header that is not among the sources. Its actions
  are the ones above and \<^verbatim>\<open>EXEC_WORD\<close>, which feeds the word under the cursor or
  the selection to the child.
\<close>

datatype handle_exec_action = Act exec_action | EXEC_WORD

definition spawn_action_from_exec_action :: "handle_exec_action \<Rightarrow> spawn_action" where
  "spawn_action_from_exec_action action =
     (if action = Act EXEC_NULL then SPAWN_NULL
      else if action = Act EXEC_TTY then SPAWN_TTY
      else SPAWN_PIPE)"

text \<open>
  The functions of other files that only the \<^verbatim>\<open>EXEC_WORD\<close> branch calls:
  \<^verbatim>\<open>view_do_get_word_under_cursor\<close> gives the length of the word and its offset in
  the line; the other two add to \<^verbatim>\<open>cursor.offset\<close> and compare it with the size of
  the block.
\<close>

record 'c word_ops =
  word_under_cursor :: "'c view \<Rightarrow> nat \<times> nat"
  add_offset :: "'c \<Rightarrow> nat \<Rightarrow> 'c"
  offset_in_block :: "'c \<Rightarrow> bool"

text \<open>The \<^verbatim>\<open>switch\<close> on the stdin action of \<^verbatim>\<open>handle_exec\<close>.\<close>

definition handle_exec_input ::
  "'c editor_ops \<Rightarrow> 'c word_ops \<Rightarrow> handle_exec_action \<Rightarrow> 'c view
     \<Rightarrow> exec_error + 'c view \<times> string \<times> nat" where
  "handle_exec_input ops wops action v =
     (case action of
        Act a \<Rightarrow> exec_input ops a v
      | EXEC_WORD \<Rightarrow>
          (if selection v \<noteq> SELECT_NONE
           then (case prepare_selection ops v of
                   (v, n) \<Rightarrow> Inr (v, block_iter_get_bytes ops (cursor v) n, n))
           else (case word_under_cursor wops v of
                   (word_length, offset) \<Rightarrow>
                     if word_length = 0 then Inr (v, [], 0)
                     else let v = move_bol ops v;
                              v = v\<lparr>cursor := add_offset wops (cursor v) offset\<rparr>
                          in if \<not> offset_in_block wops (cursor v) then Inl Bug_cursor_offset
                             else Inr (v, block_iter_get_bytes ops (cursor v) word_length,
                                       word_length))))"

definition handle_exec_output ::
  "'c editor_ops \<Rightarrow> handle_exec_action \<Rightarrow> nat \<Rightarrow> string \<Rightarrow> 'c view
     \<Rightarrow> exec_error + 'c view \<times> routing list" where
  "handle_exec_output ops action input_length out v =
     (case action of
        Act a \<Rightarrow> exec_output ops a input_length out v
      | EXEC_WORD \<Rightarrow> Inl Bug_unhandled_action)"

text \<open>
  \<^verbatim>\<open>handle_exec\<close>: the view at the end, the consumers of the output that were
  called, the messages shown, and the value returned (\<open>-1\<close> or the length of the
  output).
\<close>

definition handle_exec ::
  "'c editor_ops \<Rightarrow> 'c word_ops \<Rightarrow> string list \<Rightarrow> handle_exec_action list \<Rightarrow> bool \<Rightarrow> bool \<Rightarrow> bool
     \<Rightarrow> 'c view \<Rightarrow> exec_error + 'c view \<times> routing list \<times> message list \<times> int" where
  "handle_exec ops wops args actions quiet prompt strip view =
     (let saved_cursor = cursor view;
          output_to_buffer = (actions ! 1 = Act EXEC_BUFFER)
      in case handle_exec_input ops wops (actions ! 0) view of
           Inl e \<Rightarrow> Inl e
         | Inr (view, data, n) \<Rightarrow>
             (case spawn_fn ops
                     \<lparr>argv = args, lines_and_columns_env = output_to_buffer, ctx_quiet = quiet,
                      ctx_prompt = prompt, input_data = data, input_len = n\<rparr>
                     (map spawn_action_from_exec_action (take 3 actions)) of
                (err, out0, out1) \<Rightarrow>
                  if err \<noteq> 0
                  then Inr (view\<lparr>cursor := saved_cursor\<rparr>, [], show_spawn_error_msg out1 err, - 1)
                  else (let output = (if strip \<and> output_to_buffer then strip_newline out0
                                      else out0)
                        in case handle_exec_output ops (actions ! 1) n output view of
                             Inl e \<Rightarrow> Inl e
                           | Inr (view, routed) \<Rightarrow>
                               Inr (view, routed, [], int (length output)))))"

section \<open>Example syntaxes and buffers\<close>

text \<open>A syntax with the single state 0, which paints every byte with colour 0.\<close>

definition plain_syn :: syn_store where
  "plain_syn s = \<lparr>conditions = [], state_a = \<lparr>emit_color = 0, destination = 0\<rparr>, noeat = False\<rparr>"

definition plain_text :: "int \<Rightarrow> string" where
  "plain_text n = (if 0 \<le> n \<and> n < 200 then ''a'' else [])"

text \<open>
  Four cells, all holding state 0 but the last, with the first hole at line 1: the cache
  of four lines after an insertion into line 2 followed by an insertion into line 0.
\<close>

definition hole_buf :: buffer where
  "hole_buf = \<lparr>syn = Some plain_syn, ptrs = (\<lambda>k. if 0 \<le> k \<and> k \<le> 2 then Some 0 else None),
                count = 4, first_hole = 1\<rparr>"


text \<open>
  A syntax with a comment that never ends: state 0 goes to state 1 at a \<open>#\<close>
  (byte 35, bit 3 of byte 4 of the bitmap), and state 1 is never left.
\<close>

definition hash_bitmap :: "8 word list" where
  "hash_bitmap =
     [0, 0, 0, 0, 8, 0, 0, 0, 0, 0, 0, 0, 0, 0, 0, 0,
      0, 0, 0, 0, 0, 0, 0, 0, 0, 0, 0, 0, 0, 0, 0, 0]"

definition comment_syn :: syn_store where
  "comment_syn s =
     (if s = 0
      then \<lparr>conditions = [COND_CHAR hash_bitmap \<lparr>emit_color = 1, destination = 1\<rparr>],
            state_a = \<lparr>emit_color = 0, destination = 0\<rparr>, noeat = False\<rparr>
      else \<lparr>conditions = [], state_a = \<lparr>emit_color = 1, destination = 1\<rparr>, noeat = False\<rparr>)"

text \<open>The cache of a buffer that has just got its syntax: the start state of line 0.\<close>

definition fresh_buf :: buffer where
  "fresh_buf = \<lparr>syn = Some comment_syn, ptrs = (\<lambda>k. if k = 0 then Some 0 else None),
                 count = 1, first_hole = 1\<rparr>"

text \<open>
  Three texts: twenty lines \<open>a\<close>; the same after \<open>#\<close> is typed at the start of
  line 7; and that after two newlines are typed at the start of line 2.
\<close>

definition text_a :: "int \<Rightarrow> string" where
  "text_a n = (if 0 \<le> n \<and> n < 20 then ''a'' else [])"

definition text_b :: "int \<Rightarrow> string" where
  "text_b n = (if n = 7 then ''#a'' else text_a n)"

definition text_c :: "int \<Rightarrow> string" where
  "text_c n = (if n = 2 \<or> n = 3 then [] else if n = 9 then ''#a''
               else if 0 \<le> n \<and> n < 22 then ''a'' else [])"

text \<open>
  The state in which line \<open>n\<close> starts: the state machine run over the lines before it,
  from the start state of line 0.
\<close>

fun start_state ::
  "syn_store \<Rightarrow> (int \<Rightarrow> string) \<Rightarrow> state_ref option \<Rightarrow> nat \<Rightarrow> (hl_error + state_ref option) option" where
  "start_state sy line_at s0 0 = Some (Inr s0)"
| "start_state sy line_at s0 (Suc n) =
     (case start_state sy line_at s0 n of
        None \<Rightarrow> None
      | Some (Inl e) \<Rightarrow> Some (Inl e)
      | Some (Inr s) \<Rightarrow>
          (case highlight_line sy s (line_at (int n)) of
             None \<Rightarrow> None
           | Some (Inl e) \<Rightarrow> Some (Inl e)
           | Some (Inr (cs, s')) \<Rightarrow> Some (Inr s')))"

text \<open>
  The editor session: lines 0..10 are displayed, \<open>#\<close> is typed into line 7, two
  newlines are typed into line 2, and lines up to 12 are asked for.
\<close>

definition two_inserts :: "(hl_error + buffer) option" where
  "two_inserts =
     (case hl_fill_start_states text_a fresh_buf 10 of
        None \<Rightarrow> None
      | Some (Inl e) \<Rightarrow> Some (Inl e)
      | Some (Inr b1) \<Rightarrow>
          (case hl_insert b1 7 0 of
             Inl e \<Rightarrow> Some (Inl e)
           | Inr b2 \<Rightarrow>
               (case hl_insert b2 2 2 of
                  Inl e \<Rightarrow> Some (Inl e)
                | Inr b3 \<Rightarrow> hl_fill_start_states text_c b3 12)))"

text \<open>
  Another session: lines 0..3 are displayed, and the selection from line 3 down over
  ten newlines is deleted.
\<close>

definition big_delete :: "(hl_error + buffer) option" where
  "big_delete =
     (case hl_fill_start_states text_a fresh_buf 3 of
        None \<Rightarrow> None
      | Some (Inl e) \<Rightarrow> Some (Inl e)
      | Some (Inr b1) \<Rightarrow>
          (case hl_line b1 (text_a 3) 3 of
             None \<Rightarrow> None
           | Some (Inl e) \<Rightarrow> Some (Inl e)
           | Some (Inr (b2, cs, changed)) \<Rightarrow>
               (case hl_delete b2 3 10 of Inl e \<Rightarrow> Some (Inl e) | Inr b3 \<Rightarrow> Some (Inr b3))))"

text \<open>
  A state whose only condition is a recolor of one byte, with an action that leads to
  state 1; its default action leads back to state 0.
\<close>

definition recolor_syn :: syn_store where
  "recolor_syn s =
     (if s = 0
      then \<lparr>conditions = [COND_RECOLOR 1 \<lparr>emit_color = 7, destination = 1\<rparr>],
            state_a = \<lparr>emit_color = 0, destination = 0\<rparr>, noeat = False\<rparr>
      else \<lparr>conditions = [], state_a = \<lparr>emit_color = 9, destination = 1\<rparr>, noeat = False\<rparr>)"

text \<open>
  A round of \<^verbatim>\<open>filter\<close> in which the output pipe is readable and the input pipe
  writable: four bytes are read and three written.
\<close>

definition both_ready :: poll_outcome where
  "both_ready =
     \<lparr>poll_ret = 2, poll_errno = Other_errno, revents0 = POLLIN, revents1 = POLLOUT,
      read_ret = 4, write_ret = 3, close_ret = 0, hup_close_ret0 = 0, hup_close_ret1 = 0\<rparr>"

text \<open>
  A round in which the child has closed its output while seven of ten bytes of input are
  still to be written.
\<close>

definition output_closed :: poll_outcome where
  "output_closed =
     \<lparr>poll_ret = 1, poll_errno = Other_errno, revents0 = POLLIN, revents1 = 0,
      read_ret = 0, write_ret = 0, close_ret = 0, hup_close_ret0 = 0, hup_close_ret1 = 0\<rparr>"

definition pipes_open :: filter_state where
  "pipes_open = \<lparr>fd0 = 5, fd1 = 6, wlen = 3, output_len = 0\<rparr>"

text \<open>
  A system in which every call succeeds: \<^verbatim>\<open>/dev/null\<close> opens as descriptors 3, 4
  and 5, the child is process 100 and exits with status 0.
\<close>

definition all_succeed :: spawn_outcome where
  "all_succeed =
     \<lparr>open_ret = (\<lambda>i. 3 + int i), pipe_ret = (\<lambda>i. (True, 10 + 2 * int i, 11 + 2 * int i)),
      fork_ret = 100, filter_rounds = [], write_all_ret = 0, read_all_rets = [0],
      wait_ret = 0\<rparr>"

text \<open>
  An editor whose \<^verbatim>\<open>spawn\<close> fails with status 2 and the text \<open>boom\<close> on stderr;
  positions are byte offsets, the line of the cursor starts at its offset rounded down
  to a multiple of ten, and the selection starts at offset 40.
\<close>

definition failing_ops :: "nat editor_ops" where
  "failing_ops =
     \<lparr>prepare_selection = (\<lambda>v. (v\<lparr>cursor := 40\<rparr>, 5)),
      move_bol = (\<lambda>v. v\<lparr>cursor := cursor v - cursor v mod 10\<rparr>),
      move_bof = (\<lambda>v. v\<lparr>cursor := 0\<rparr>),
      fill_line_ref = (\<lambda>c. 10),
      buffer_size = 100,
      block_iter_get_bytes = (\<lambda>c n. replicate n (CHR ''x'')),
      dump_messages = [],
      spawn_fn = (\<lambda>ctx actions. (2, [], ''boom'')),
      route = (\<lambda>r v. v\<lparr>cursor := 0, selection := SELECT_NONE\<rparr>)\<rparr>"

fun is_read :: "event \<Rightarrow> bool" where
  "is_read (Ev_read fd) = True"
| "is_read e = False"

fun is_write :: "event \<Rightarrow> bool" where
  "is_write (Ev_write fd n) = True"
| "is_write e = False"

section \<open>Properties of the line start states\<close>

subsection \<open>The scan for the next hole\<close>

lemma find_hole_pos_ge: "pos \<le> find_hole_pos p cnt pos"
proof (induction p cnt pos rule: find_hole_pos.induct)
  case (1 p cnt pos)
  show ?case
  proof (cases "pos < cnt \<and> p pos \<noteq> None")
    case True
    with 1 have "pos + 1 \<le> find_hole_pos p cnt (pos + 1)" by simp
    with True show ?thesis by (subst find_hole_pos.simps) simp
  next
    case False
    then show ?thesis by (subst find_hole_pos.simps) auto
  qed
qed

lemma find_hole_pos_le: "pos \<le> cnt \<Longrightarrow> find_hole_pos p cnt pos \<le> cnt"
proof (induction p cnt pos rule: find_hole_pos.induct)
  case (1 p cnt pos)
  show ?case
  proof (cases "pos < cnt \<and> p pos \<noteq> None")
    case True
    with 1 have "find_hole_pos p cnt (pos + 1) \<le> cnt" by simp
    with True show ?thesis by (subst find_hole_pos.simps) simp
  next
    case False
    with 1 show ?thesis by (subst find_hole_pos.simps) auto
  qed
qed

lemma find_hole_pos_filled:
  "pos \<le> k \<Longrightarrow> k < find_hole_pos p cnt pos \<Longrightarrow> p k \<noteq> None"
proof (induction p cnt pos rule: find_hole_pos.induct)
  case (1 p cnt pos)
  show ?case
  proof (cases "pos < cnt \<and> p pos \<noteq> None")
    case True
    then have eq: "find_hole_pos p cnt pos = find_hole_pos p cnt (pos + 1)"
      by (subst find_hole_pos.simps) simp
    show ?thesis
    proof (cases "k = pos")
      case True
      with \<open>pos < cnt \<and> p pos \<noteq> None\<close> show ?thesis by simp
    next
      case False
      with 1 True eq show ?thesis by simp
    qed
  next
    case False
    then have "find_hole_pos p cnt pos = pos" by (subst find_hole_pos.simps) auto
    with 1 show ?thesis by simp
  qed
qed

lemma find_hole_pos_stop:
  "find_hole_pos p cnt pos < cnt \<Longrightarrow> p (find_hole_pos p cnt pos) = None"
proof (induction p cnt pos rule: find_hole_pos.induct)
  case (1 p cnt pos)
  show ?case
  proof (cases "pos < cnt \<and> p pos \<noteq> None")
    case True
    then have eq: "find_hole_pos p cnt pos = find_hole_pos p cnt (pos + 1)"
      by (subst find_hole_pos.simps) simp
    with 1 True show ?thesis by simp
  next
    case False
    then have eq: "find_hole_pos p cnt pos = pos" by (subst find_hole_pos.simps) auto
    with 1 False show ?thesis by auto
  qed
qed

subsection \<open>The fill loop\<close>

lemma fill_loop_continue:
  "first_hole b \<le> count b \<Longrightarrow> first_hole b \<le> line_nr \<Longrightarrow> fill_step sy line_at b = Some (Inr b')
   \<Longrightarrow> fill_loop sy line_at line_nr b = fill_loop sy line_at line_nr b'"
  by (subst fill_loop.simps) simp


lemma hl_plain_a: "highlight_line plain_syn (Some 0) ''a'' = Some (Inr ([Some 0], Some 0))"
  by (simp add: highlight_line_def highlight_loop.simps hl_round_def plain_syn_def)

lemma hole_buf_step:
  "fill_step plain_syn plain_text hole_buf = Some (Inr (hole_buf\<lparr>first_hole := 3\<rparr>))"
  by (simp add: fill_step_def hole_buf_def plain_text_def hl_plain_a find_hole_def
      find_hole_pos.simps)

text \<open>
  Claim C1, as the code has it. Let \<open>i = first_hole - 1\<close> be the line before the first
  hole and \<open>s'\<close> the state in which highlighting line \<open>i\<close> from \<open>slots[i]\<close> ends.
  One round of the fill does exactly one of four things: if \<open>i + 1\<close> is the length of
  the cache, \<open>s'\<close> is appended and \<open>first_hole\<close> advanced; else if \<open>slots[i+1]\<close> is
  NULL, it is set to \<open>s'\<close> and \<open>first_hole\<close> advanced; else if \<open>slots[i+1]\<close> already
  is \<open>s'\<close>, no slot changes and \<open>first_hole\<close> is re-seated at the first NULL slot
  from \<open>i + 2\<close> on, or at the length of the cache when there is none; else
  \<open>slots[i+1]\<close> is overwritten with \<open>s'\<close> and \<open>first_hole\<close> set to \<open>i + 2\<close>. The
  fill does not stop after any of the four: while \<open>first_hole\<close> is not beyond the
  line asked for, it goes on from the buffer that the round produced.
\<close>

theorem fill_four_cases:
  assumes fh: "1 \<le> first_hole b" "first_hole b \<le> count b" "first_hole b \<le> line_nr"
    and hl: "highlight_line sy (ptrs b (first_hole b - 1)) (line_at (first_hole b - 1))
               = Some (Inr (cs, s'))"
    and i: "i = first_hole b - 1"
  shows "\<exists>b'. fill_step sy line_at b = Some (Inr b')
     \<and> fill_loop sy line_at line_nr b = fill_loop sy line_at line_nr b'
     \<and> (if i + 1 = count b
        then ptrs b' = (ptrs b)(i + 1 := s') \<and> count b' = count b + 1
             \<and> first_hole b' = first_hole b + 1
        else count b' = count b \<and>
          (if ptrs b (i + 1) = None
           then ptrs b' = (ptrs b)(i + 1 := s') \<and> first_hole b' = first_hole b + 1
           else if ptrs b (i + 1) = s'
           then ptrs b' = ptrs b \<and> first_hole b' = find_hole_pos (ptrs b) (count b) (i + 2)
                \<and> i + 2 \<le> first_hole b' \<and> first_hole b' \<le> count b
                \<and> (\<forall>k. i + 2 \<le> k \<and> k < first_hole b' \<longrightarrow> ptrs b k \<noteq> None)
                \<and> (first_hole b' < count b \<longrightarrow> ptrs b (first_hole b') = None)
           else ptrs b' = (ptrs b)(i + 1 := s') \<and> first_hole b' = i + 2))"
proof -
  have "\<exists>b'. fill_step sy line_at b = Some (Inr b')"
    using fh hl by (simp add: fill_step_def Let_def)
  then obtain b' where step: "fill_step sy line_at b = Some (Inr b')" ..
  have cont: "fill_loop sy line_at line_nr b = fill_loop sy line_at line_nr b'"
    using fh step by (simp add: fill_loop_continue)
  have shape: "(if i + 1 = count b
        then ptrs b' = (ptrs b)(i + 1 := s') \<and> count b' = count b + 1
             \<and> first_hole b' = first_hole b + 1
        else count b' = count b \<and>
          (if ptrs b (i + 1) = None
           then ptrs b' = (ptrs b)(i + 1 := s') \<and> first_hole b' = first_hole b + 1
           else if ptrs b (i + 1) = s'
           then ptrs b' = ptrs b \<and> first_hole b' = find_hole_pos (ptrs b) (count b) (i + 2)
           else ptrs b' = (ptrs b)(i + 1 := s') \<and> first_hole b' = i + 2))"
    using fh hl i step
    by (auto simp: fill_step_def Let_def find_hole_def add.commute split: if_splits)
  have scan: "i + 2 \<le> find_hole_pos (ptrs b) (count b) (i + 2)"
    by (rule find_hole_pos_ge)
  have scan_le: "i + 1 \<noteq> count b \<Longrightarrow> find_hole_pos (ptrs b) (count b) (i + 2) \<le> count b"
    using fh i by (intro find_hole_pos_le) simp
  have scan_filled:
    "\<forall>k. i + 2 \<le> k \<and> k < find_hole_pos (ptrs b) (count b) (i + 2) \<longrightarrow> ptrs b k \<noteq> None"
    using find_hole_pos_filled by blast
  have scan_stop: "find_hole_pos (ptrs b) (count b) (i + 2) < count b \<longrightarrow>
      ptrs b (find_hole_pos (ptrs b) (count b) (i + 2)) = None"
    using find_hole_pos_stop by blast
  show ?thesis
    apply (rule exI [where x = b'])
    using step cont shape scan scan_le scan_filled scan_stop
    by (simp split: if_splits)
qed

text \<open>
  The theorem at the cache \<open>[0, 0, 0, NULL]\<close> with the first hole at 1 and line 3 asked
  for: the round finds slot 1 as computed and re-seats \<open>first_hole\<close> at 3.
\<close>

theorem fill_four_cases_witness:
  "\<exists>b'. fill_step plain_syn plain_text hole_buf = Some (Inr b')
     \<and> fill_loop plain_syn plain_text 3 hole_buf = fill_loop plain_syn plain_text 3 b'
     \<and> ptrs b' = ptrs hole_buf \<and> first_hole b' = 3 \<and> count b' = 4"
proof -
  have h1: "1 \<le> first_hole hole_buf" "first_hole hole_buf \<le> count hole_buf"
    "first_hole hole_buf \<le> 3"
    by (simp_all add: hole_buf_def)
  have h2: "highlight_line plain_syn (ptrs hole_buf (first_hole hole_buf - 1))
      (plain_text (first_hole hole_buf - 1)) = Some (Inr ([Some 0], Some 0))"
    by (simp add: hole_buf_def plain_text_def hl_plain_a)
  have h3: "(0::int) = first_hole hole_buf - 1" by (simp add: hole_buf_def)
  have fh: "find_hole_pos (ptrs hole_buf) (count hole_buf) 2 = 3"
    by (simp add: hole_buf_def find_hole_pos.simps)
  from fill_four_cases [where b = hole_buf and line_nr = 3 and sy = plain_syn
      and line_at = plain_text and cs = "[Some 0]" and s' = "Some 0" and i = 0, OF h1 h2 h3]
  obtain b' where
    b': "fill_step plain_syn plain_text hole_buf = Some (Inr b')"
      "fill_loop plain_syn plain_text 3 hole_buf = fill_loop plain_syn plain_text 3 b'"
      "(if (0::int) + 1 = count hole_buf
        then ptrs b' = (ptrs hole_buf)(0 + 1 := Some 0) \<and> count b' = count hole_buf + 1
             \<and> first_hole b' = first_hole hole_buf + 1
        else count b' = count hole_buf \<and>
          (if ptrs hole_buf (0 + 1) = None
           then ptrs b' = (ptrs hole_buf)(0 + 1 := Some 0)
                \<and> first_hole b' = first_hole hole_buf + 1
           else if ptrs hole_buf (0 + 1) = Some 0
           then ptrs b' = ptrs hole_buf
                \<and> first_hole b' = find_hole_pos (ptrs hole_buf) (count hole_buf) (0 + 2)
                \<and> 0 + 2 \<le> first_hole b' \<and> first_hole b' \<le> count hole_buf
                \<and> (\<forall>k. 0 + 2 \<le> k \<and> k < first_hole b' \<longrightarrow> ptrs hole_buf k \<noteq> None)
                \<and> (first_hole b' < count hole_buf \<longrightarrow> ptrs hole_buf (first_hole b') = None)
           else ptrs b' = (ptrs hole_buf)(0 + 1 := Some 0) \<and> first_hole b' = 0 + 2))"
    by blast
  from b'(3) fh have "ptrs b' = ptrs hole_buf \<and> first_hole b' = 3 \<and> count b' = 4"
    by (simp add: hole_buf_def split: if_splits)
  with b'(1,2) show ?thesis by blast
qed

text \<open>
  The claim as written says that the fill stops once a hole is closed. On the cache
  \<open>[0, 0, 0, NULL]\<close> with the first hole at 1, the first round finds slot 1 as
  computed and re-seats \<open>first_hole\<close> at 3; a fill that stopped there would return
  that buffer. The fill asked for line 3 goes on, fills slot 3 and returns with
  \<open>first_hole = 4\<close>.
\<close>

theorem fill_goes_on_after_closed_hole:
  "ptrs hole_buf 1 = Some 0
   \<and> fill_step plain_syn plain_text hole_buf = Some (Inr (hole_buf\<lparr>first_hole := 3\<rparr>))
   \<and> hl_fill_start_states plain_text hole_buf 3
       = Some (Inr (hole_buf\<lparr>ptrs := (ptrs hole_buf)(3 := Some 0), first_hole := 4\<rparr>))
   \<and> hl_fill_start_states plain_text hole_buf 3 \<noteq> Some (Inr (hole_buf\<lparr>first_hole := 3\<rparr>))"
  by (simp add: hole_buf_step)
    (simp add: hl_fill_start_states_def fill_loop.simps fill_step_def hole_buf_def plain_text_def
      hl_plain_a find_hole_def find_hole_pos.simps)

subsection \<open>Two insertions before a repaint\<close>

lemma hl_comment_a: "highlight_line comment_syn (Some 0) ''a'' = Some (Inr ([Some 0], Some 0))"
  by (simp add: highlight_line_def highlight_loop.simps hl_round_def comment_syn_def
      bitmap_get_def hash_bitmap_def)

lemma hl_comment_hash:
  "highlight_line comment_syn (Some 0) ''#a'' = Some (Inr ([Some 1, Some 1], Some 1))"
  by (simp add: highlight_line_def highlight_loop.simps hl_round_def comment_syn_def
      bitmap_get_def hash_bitmap_def)

lemma hl_comment_empty: "highlight_line comment_syn s [] = Some (Inr ([], s))"
  by (simp add: highlight_line_def)

lemma start_state_text_c:
  "start_state comment_syn text_c (Some 0) 10 = Some (Inr (Some 1))"
  by (simp add: eval_nat_numeral text_c_def hl_comment_a hl_comment_hash hl_comment_empty)

lemma fresh_fill_10:
  "hl_fill_start_states text_a fresh_buf 10 =
     Some (Inr \<lparr>syn = Some comment_syn, ptrs = (\<lambda>k. if 0 \<le> k \<and> k \<le> 10 then Some 0 else None),
                count = 11, first_hole = 11\<rparr>)"
  apply (simp add: hl_fill_start_states_def fresh_buf_def fill_loop.simps fill_step_def text_a_def
      hl_comment_a)
  apply (rule ext)
  apply (simp split: if_splits)
  apply arith
  done

lemma fresh_fill_3:
  "hl_fill_start_states text_a fresh_buf 3 =
     Some (Inr \<lparr>syn = Some comment_syn, ptrs = (\<lambda>k. if 0 \<le> k \<and> k \<le> 3 then Some 0 else None),
                count = 4, first_hole = 4\<rparr>)"
  apply (simp add: hl_fill_start_states_def fresh_buf_def fill_loop.simps fill_step_def text_a_def
      hl_comment_a)
  apply (rule ext)
  apply (simp split: if_splits)
  done

text \<open>
  Claim C2 on the code. Lines 0..10 of twenty lines \<open>a\<close> are highlighted; \<open>#\<close> is
  typed into line 7 (\<^verbatim>\<open>hl_insert(7, 0)\<close>), which leaves \<open>first_hole = 8\<close> on
  the stale slot 8; two newlines are typed into line 2 (\<^verbatim>\<open>hl_insert(2, 2)\<close>),
  which moves the stale slot to index 10 while \<^verbatim>\<open>new_hole\<close> clears the cell at
  the old index 8; lines up to 12 are then asked for. The fill returns with
  \<open>first_hole = 13\<close> and slot 10 still holding state 0, while line 10 starts in
  state 1, line 9 being the one with the \<open>#\<close>. Highlighting line 9 afterwards
  fails the assertion of \<^verbatim>\<open>hl_line\<close> that a slot before the first hole holds the
  state just computed.
\<close>

theorem stale_state_below_first_hole:
  "(case two_inserts of
      Some (Inr b) \<Rightarrow>
        count b = 13 \<and> first_hole b = 13 \<and> ptrs b 10 = Some 0
        \<and> start_state comment_syn text_c (Some 0) 10 = Some (Inr (Some 1))
        \<and> hl_line b (text_c 9) 9 = Some (Inl BUG_ON)
    | _ \<Rightarrow> False)"
  unfolding two_inserts_def fresh_fill_10
  by (simp add: hl_insert_def new_hole_def move_line_states_def
      set_null_def hl_fill_start_states_def fill_loop.simps fill_step_def find_hole_def
      find_hole_pos.simps text_c_def hl_comment_a hl_comment_hash hl_comment_empty
      hl_line_def start_state_text_c)

subsection \<open>A deletion that reaches beyond the cache\<close>

text \<open>
  Claim C6 on the code. Lines 0..3 of twenty lines are highlighted, so the cache has
  five cells; ten newlines are deleted from line 3 on (\<^verbatim>\<open>hl_delete(3, 10)\<close>).
  \<open>first + deleted_nl + 1\<close> is not below the length, and the cache is truncated to
  \<open>5 - 10\<close>: \<^verbatim>\<open>count\<close> and \<^verbatim>\<open>first_hole\<close> are \<open>-5\<close>, and the next fill
  addresses the array below index 0.
\<close>

theorem hl_delete_negative_count:
  "(case big_delete of
      Some (Inr b) \<Rightarrow>
        count b = - 5 \<and> first_hole b = - 5
        \<and> hl_fill_start_states text_a b 0 = Some (Inl Out_of_bounds)
    | _ \<Rightarrow> False)"
  unfolding big_delete_def fresh_fill_3
  by (simp add: hl_line_def text_a_def hl_comment_a hl_delete_def
      truncate_line_states_def hl_fill_start_states_def fill_loop.simps fill_step_def)

subsection \<open>Termination of the fill\<close>










section \<open>Properties of highlight\_line\<close>

lemma length_fold_update: "length (fold (\<lambda>idx cs. cs[idx := v]) ks cs) = length cs"
  by (induction ks arbitrary: cs) simp_all

lemma nth_fold_update:
  "k < length cs \<Longrightarrow>
     fold (\<lambda>idx cs. cs[idx := v]) [a..<b] cs ! k = (if a \<le> k \<and> k < b then v else cs ! k)"
proof (induction b)
  case 0
  then show ?case by simp
next
  case (Suc b)
  then show ?case
    by (cases "a \<le> b"; cases "k = b") (auto simp: length_fold_update nth_list_update)
qed

lemma length_paint: "length (paint cs from to c) = length cs"
  by (simp add: paint_def length_fold_update)

lemma nth_paint:
  "k < length cs \<Longrightarrow>
     paint cs from to c ! k = (if nat from \<le> k \<and> k < nat to then Some c else cs ! k)"
  by (simp add: paint_def nth_fold_update)


text \<open>
  Claim C4, as the code has it. A recolor condition never fires. When the walk over the
  conditions of a state reaches \<^verbatim>\<open>COND_RECOLOR\<close> with length \<open>n\<close>, the
  columns \<open>max 0 (i - n) .. i - 1\<close> take the emit colour of its action and every
  other column keeps its colour, and the walk goes on with the next condition of the
  same state, with \<open>i\<close> and \<open>sidx\<close> as they were: the round is the round of the
  same state without that condition, on the repainted colours. The destination of the
  action is not used.
\<close>

theorem recolor_falls_through:
  "walk (COND_RECOLOR n a # rest) line i sidx cs
     = walk rest line i sidx (paint cs (max 0 (i - n)) i (emit_color a))
   \<and> (conditions (sy st) = COND_RECOLOR n a # rest \<longrightarrow>
        hl_round sy line st i sidx cs
          = hl_round (sy(st := (sy st)\<lparr>conditions := rest\<rparr>)) line st i sidx
              (paint cs (max 0 (i - n)) i (emit_color a)))
   \<and> length (paint cs (max 0 (i - n)) i (emit_color a)) = length cs
   \<and> (\<forall>k < length cs. paint cs (max 0 (i - n)) i (emit_color a) ! k
          = (if max 0 (i - n) \<le> int k \<and> int k < i then Some (emit_color a) else cs ! k))"
proof -
  have w: "walk (COND_RECOLOR n a # rest) line i sidx cs
     = walk rest line i sidx (paint cs (max 0 (i - n)) i (emit_color a))"
    by (simp add: Let_def max_def)
  have r: "conditions (sy st) = COND_RECOLOR n a # rest \<longrightarrow>
        hl_round sy line st i sidx cs
          = hl_round (sy(st := (sy st)\<lparr>conditions := rest\<rparr>)) line st i sidx
              (paint cs (max 0 (i - n)) i (emit_color a))"
    by (simp add: hl_round_def Let_def max_def split: walk_result.splits)
  have p: "\<forall>k < length cs. paint cs (max 0 (i - n)) i (emit_color a) ! k
          = (if max 0 (i - n) \<le> int k \<and> int k < i then Some (emit_color a) else cs ! k)"
    by (auto simp: nth_paint)
  from w r p show ?thesis by (simp add: length_paint)
qed


text \<open>
  The theorem at a state whose only condition is a recolor of one byte, at column 1 of
  the line \<open>ab\<close>.
\<close>

theorem recolor_falls_through_witness:
  "hl_round recolor_syn ''ab'' 0 1 (- 1) [Some 0, None]
       = hl_round (recolor_syn(0 := (recolor_syn 0)\<lparr>conditions := []\<rparr>)) ''ab'' 0 1 (- 1)
           [Some 7, None]
   \<and> paint [Some 0, None] (max 0 (1 - 1)) 1 7 ! 0 = Some 7
   \<and> paint [Some 0, None] (max 0 (1 - 1)) 1 7 ! 1 = None"
proof -
  have c: "conditions (recolor_syn 0) = [COND_RECOLOR 1 \<lparr>emit_color = 7, destination = 1\<rparr>]"
    by (simp add: recolor_syn_def)
  have p: "paint [Some 0, None] (max 0 (1 - 1)) 1 7 = [Some 7, None]"
    by (simp add: paint_def)
  from recolor_falls_through [where n = 1 and a = "\<lparr>emit_color = 7, destination = 1\<rparr>"
      and rest = "[]" and sy = recolor_syn and st = 0 and line = "''ab''" and i = 1
      and sidx = "- 1" and cs = "[Some 0, None]"] c
  have "hl_round recolor_syn ''ab'' 0 1 (- 1) [Some 0, None]
       = hl_round (recolor_syn(0 := (recolor_syn 0)\<lparr>conditions := []\<rparr>)) ''ab'' 0 1 (- 1)
           (paint [Some 0, None] (max 0 (1 - 1)) 1 (emit_color \<lparr>emit_color = 7, destination = 1\<rparr>))"
    and "\<forall>k<length [Some 0, None :: color_ref option].
       paint [Some 0, None] (max 0 (1 - 1)) 1 (emit_color \<lparr>emit_color = 7, destination = 1\<rparr>) ! k =
       (if max 0 (1 - 1) \<le> int k \<and> int k < 1 then Some (emit_color \<lparr>emit_color = 7, destination = 1\<rparr>)
        else [Some 0, None] ! k)"
    by blast+
  then have "hl_round recolor_syn ''ab'' 0 1 (- 1) [Some 0, None]
       = hl_round (recolor_syn(0 := (recolor_syn 0)\<lparr>conditions := []\<rparr>)) ''ab'' 0 1 (- 1)
           (paint [Some 0, None] (max 0 (1 - 1)) 1 7)"
    and "paint [Some 0, None] (max 0 (1 - 1)) 1 7 ! 0 = Some 7"
    and "paint [Some 0, None] (max 0 (1 - 1)) 1 7 ! 1 = None"
    by simp_all
  with p show ?thesis by simp
qed

text \<open>
  The claim as written makes the recolor fire: colours repainted, \<open>i\<close> and
  \<open>sidx\<close> kept, and the state of its action (state 1) entered, that is the
  configuration \<open>(1, 1, -1, [7, NULL])\<close>. The code repaints, then takes the default
  action of state 0, which paints column 1 and stays in state 0; the line \<open>ab\<close>
  ends in state 0.
\<close>

theorem recolor_does_not_fire:
  "conditions (recolor_syn 0) = [COND_RECOLOR 1 \<lparr>emit_color = 7, destination = 1\<rparr>]
   \<and> hl_round recolor_syn ''ab'' 0 1 (- 1) [Some 0, None] = (0, 2, - 1, [Some 7, Some 0])
   \<and> hl_round recolor_syn ''ab'' 0 1 (- 1) [Some 0, None] \<noteq> (1, 1, - 1, [Some 7, None])
   \<and> highlight_line recolor_syn (Some 0) ''ab'' = Some (Inr ([Some 7, Some 0], Some 0))"
  by (simp add: recolor_syn_def hl_round_def paint_def highlight_line_def highlight_loop.simps)

section \<open>Properties of the pipeline\<close>

subsection \<open>The order of reading and writing in filter\<close>

lemma filter_read_events:
  "filter_read n e s r0 = (ctl, s', evs) \<Longrightarrow>
     \<not> list_ex is_write evs
     \<and> (ctl = Continue \<longrightarrow> wlen s' = wlen s \<and> fd0 s' = fd0 s \<and> fd1 s' = fd1 s)
     \<and> (list_ex is_read evs \<longleftrightarrow> r0 AND POLLIN \<noteq> 0)
     \<and> (list_ex is_read evs \<longrightarrow> hd evs = Ev_read (fd0 s))"
  by (auto simp: filter_read_def split: if_splits)

lemma filter_write_events:
  "filter_write n e s r1 = (ctl, s', evs) \<Longrightarrow>
     \<not> list_ex is_read evs
     \<and> (list_ex is_write evs \<longleftrightarrow> r1 AND POLLOUT \<noteq> 0)
     \<and> (list_ex is_write evs \<longrightarrow> hd evs = Ev_write (fd1 s) (n - wlen s))"
  by (auto simp: filter_write_def Let_def split: if_splits)

lemma filter_hup_events: "filter_hup fd r c = (fd', active, evs) \<Longrightarrow> \<not> list_ex is_read evs"
  by (auto simp: filter_hup_def split: if_splits)

lemma both_ready_round:
  "filter_iter 10 both_ready pipes_open
     = (Continue, \<lparr>fd0 = 5, fd1 = 6, wlen = 6, output_len = 4\<rparr>,
        [Ev_poll, Ev_read 5, Ev_write 6 7])"
  by (simp add: filter_iter_def filter_read_def filter_write_def filter_hup_def both_ready_def
      pipes_open_def POLLIN_def POLLOUT_def POLLNVAL_def POLLHUP_def POLLERR_def)

lemma output_closed_round:
  "filter_iter 10 output_closed pipes_open
     = (Break, pipes_open, [Ev_poll, Ev_read 5, Ev_msg ''Command did not read all data''])"
  by (simp add: filter_iter_def filter_read_def output_closed_def pipes_open_def POLLIN_def)

lemma filter_iter_order:
  assumes "filter_iter n e s = (ctl, s', evs)"
  shows "\<exists>pre post. evs = Ev_poll # pre @ post
           \<and> \<not> list_ex is_write pre \<and> \<not> list_ex is_read post
           \<and> (list_ex is_read pre \<longrightarrow> hd pre = Ev_read (fd0 s))
           \<and> (list_ex is_write post \<longrightarrow> hd post = Ev_write (fd1 s) (n - wlen s))
           \<and> (list_ex is_write post \<longrightarrow> 0 < read_ret e \<or> \<not> list_ex is_read pre)"
proof (cases "poll_ret e < 0")
  case True
  with assms have "evs = Ev_poll # [] @ [] \<or> evs = Ev_poll # [Ev_msg ''poll''] @ []"
    by (auto simp: filter_iter_def split: if_splits)
  then show ?thesis
  proof
    assume "evs = Ev_poll # [] @ []"
    then show ?thesis by (intro exI [where x = "[]"]) simp
  next
    assume "evs = Ev_poll # [Ev_msg ''poll''] @ []"
    then show ?thesis
      by (intro exI [where x = "[Ev_msg ''poll'']"] exI [where x = "[]"]) simp
  qed
next
  case False
  define r0 where "r0 = (if fd0 s < 0 then 0 else revents0 e)"
  define r1 where "r1 = (if fd1 s < 0 then 0 else revents1 e)"
  obtain c1 s1 ev1 where rd: "filter_read n e s r0 = (c1, s1, ev1)"
    by (cases "filter_read n e s r0") auto
  note rd_ev = filter_read_events [OF rd]
  show ?thesis
  proof (cases c1)
    case Break
    with assms False rd have "evs = Ev_poll # ev1 @ []"
      by (simp add: filter_iter_def r0_def Let_def)
    with rd_ev show ?thesis by (intro exI [where x = ev1] exI [where x = "[]"]) simp
  next
    case Continue
    obtain c2 s2 ev2 where wr: "filter_write n e s1 r1 = (c2, s2, ev2)"
      by (cases "filter_write n e s1 r1") auto
    note wr_ev = filter_write_events [OF wr]
    obtain f0 a0 ev3 where h0: "filter_hup (fd0 s2) r0 (hup_close_ret0 e) = (f0, a0, ev3)"
      by (cases "filter_hup (fd0 s2) r0 (hup_close_ret0 e)") auto
    obtain f1 a1 ev4 where h1: "filter_hup (fd1 s2) r1 (hup_close_ret1 e) = (f1, a1, ev4)"
      by (cases "filter_hup (fd1 s2) r1 (hup_close_ret1 e)") auto
    define post where "post = (if c2 = Break then ev2 else ev2 @ ev3 @ ev4)"
    have evs_eq: "evs = Ev_poll # ev1 @ post"
      using assms False rd Continue wr h0 h1
      by (cases c2) (auto simp: filter_iter_def r0_def r1_def Let_def post_def)
    have no_hup_write: "\<not> list_ex is_write ev3" "\<not> list_ex is_write ev4"
      using h0 h1 by (auto simp: filter_hup_def split: if_splits)
    have no_hup_read: "\<not> list_ex is_read ev3" "\<not> list_ex is_read ev4"
      using h0 h1 filter_hup_events by blast+
    have p1: "\<not> list_ex is_write ev1" using rd_ev by simp
    have p2: "\<not> list_ex is_read post" using wr_ev no_hup_read by (simp add: post_def)
    have p3: "list_ex is_read ev1 \<longrightarrow> hd ev1 = Ev_read (fd0 s)" using rd_ev by simp
    have same: "wlen s1 = wlen s" "fd1 s1 = fd1 s" using rd_ev Continue by simp_all
    have w: "list_ex is_write post \<longrightarrow> list_ex is_write ev2"
      using no_hup_write by (simp add: post_def)
    have p4: "list_ex is_write post \<longrightarrow> hd post = Ev_write (fd1 s) (n - wlen s)"
    proof
      assume "list_ex is_write post"
      with w have ex: "list_ex is_write ev2" by simp
      then have "ev2 \<noteq> []" by auto
      then have "hd post = hd ev2" by (simp add: post_def)
      with ex wr_ev same show "hd post = Ev_write (fd1 s) (n - wlen s)" by simp
    qed
    have p5: "list_ex is_write post \<longrightarrow> 0 < read_ret e \<or> \<not> list_ex is_read ev1"
      using rd Continue by (auto simp: filter_read_def split: if_splits)
    show ?thesis using evs_eq p1 p2 p3 p4 p5 by blast
  qed
qed


lemma filter_iter_failed_read:
  assumes "filter_iter n e s = (ctl, s', evs)"
    and "list_ex is_read evs" and "read_ret e \<le> 0"
  shows "ctl = Break \<and> \<not> list_ex is_write evs
         \<and> filter_loop n (e # es) s log = Some (s', log @ evs)"
proof (cases "poll_ret e < 0")
  case True
  with assms(1) have "evs = [Ev_poll] \<or> evs = [Ev_poll, Ev_msg ''poll'']"
    by (auto simp: filter_iter_def split: if_splits)
  with assms(2) show ?thesis by auto
next
  case False
  define r0 where "r0 = (if fd0 s < 0 then 0 else revents0 e)"
  define r1 where "r1 = (if fd1 s < 0 then 0 else revents1 e)"
  obtain c1 s1 ev1 where rd: "filter_read n e s r0 = (c1, s1, ev1)"
    by (cases "filter_read n e s r0") auto
  have brk: "ctl = Break \<Longrightarrow> filter_loop n (e # es) s log = Some (s', log @ evs)"
    using assms(1) by simp
  show ?thesis
  proof (cases c1)
    case Break
    with assms(1) False rd have "evs = Ev_poll # ev1" "ctl = Break"
      by (simp_all add: filter_iter_def r0_def Let_def)
    moreover have "\<not> list_ex is_write ev1"
      using filter_read_events [OF rd] by simp
    ultimately show ?thesis using brk by simp
  next
    case Continue
    with rd assms(3) have no_read: "\<not> list_ex is_read ev1"
      by (auto simp: filter_read_def split: if_splits)
    obtain c2 s2 ev2 where wr: "filter_write n e s1 r1 = (c2, s2, ev2)"
      by (cases "filter_write n e s1 r1") auto
    obtain f0 a0 ev3 where h0: "filter_hup (fd0 s2) r0 (hup_close_ret0 e) = (f0, a0, ev3)"
      by (cases "filter_hup (fd0 s2) r0 (hup_close_ret0 e)") auto
    obtain f1 a1 ev4 where h1: "filter_hup (fd1 s2) r1 (hup_close_ret1 e) = (f1, a1, ev4)"
      by (cases "filter_hup (fd1 s2) r1 (hup_close_ret1 e)") auto
    define post where "post = (if c2 = Break then ev2 else ev2 @ ev3 @ ev4)"
    have evs_eq: "evs = Ev_poll # ev1 @ post"
      using assms(1) False rd Continue wr h0 h1
      by (cases c2) (auto simp: filter_iter_def r0_def r1_def Let_def post_def)
    have "\<not> list_ex is_read post"
      using filter_write_events [OF wr] filter_hup_events [OF h0] filter_hup_events [OF h1]
      by (simp add: post_def)
    with evs_eq no_read have "\<not> list_ex is_read evs" by simp
    with assms(2) show ?thesis by simp
  qed
qed

text \<open>
  Claim C7, as the code has it. In every round of the loop of \<^verbatim>\<open>filter\<close>, reading
  the output pipe of the child is serviced before writing to its input pipe. The events
  of a round are the \<^verbatim>\<open>poll\<close>, then a part without any write, then a part
  without any read; a read, if there is one, is the first event after the
  \<^verbatim>\<open>poll\<close>, and a write, if there is one, is the first event of the second
  part. A round writes after a read only when the read returned data: a round whose
  read fails or returns 0 leaves the loop, so that \<^verbatim>\<open>filter\<close> returns with the
  events of that round as its last, and it does not write.
\<close>

theorem filter_iter_read_first:
  assumes "filter_iter n e s = (ctl, s', evs)"
  shows "(\<exists>pre post. evs = Ev_poll # pre @ post
           \<and> \<not> list_ex is_write pre \<and> \<not> list_ex is_read post
           \<and> (list_ex is_read pre \<longrightarrow> hd pre = Ev_read (fd0 s))
           \<and> (list_ex is_write post \<longrightarrow> hd post = Ev_write (fd1 s) (n - wlen s))
           \<and> (list_ex is_write post \<longrightarrow> 0 < read_ret e \<or> \<not> list_ex is_read pre))
         \<and> (list_ex is_read evs \<and> read_ret e \<le> 0 \<longrightarrow>
              ctl = Break \<and> \<not> list_ex is_write evs
              \<and> filter_loop n (e # es) s log = Some (s', log @ evs))"
  using filter_iter_order [OF assms] filter_iter_failed_read [OF assms] by blast

text \<open>
  The theorem at a round in which both pipes are ready, and at a round in which the
  child has closed its output: the round that is still on the list is never run.
\<close>

theorem filter_iter_read_first_witness:
  "(\<exists>pre post. [Ev_poll, Ev_read 5, Ev_write 6 7] = Ev_poll # pre @ post
           \<and> \<not> list_ex is_write pre \<and> \<not> list_ex is_read post
           \<and> hd pre = Ev_read 5 \<and> hd post = Ev_write 6 7)
   \<and> \<not> list_ex is_write [Ev_poll, Ev_read 5, Ev_msg ''Command did not read all data'']
   \<and> filter_loop 10 [output_closed, both_ready] pipes_open []
       = Some (pipes_open, [Ev_poll, Ev_read 5, Ev_msg ''Command did not read all data''])"
proof -
  from filter_iter_read_first [OF both_ready_round] obtain pre post where
    split: "[Ev_poll, Ev_read 5, Ev_write 6 7] = Ev_poll # pre @ post"
    and pre: "\<not> list_ex is_write pre" "list_ex is_read pre \<longrightarrow> hd pre = Ev_read (fd0 pipes_open)"
    and post: "\<not> list_ex is_read post"
      "list_ex is_write post \<longrightarrow> hd post = Ev_write (fd1 pipes_open) (10 - wlen pipes_open)"
    by blast
  from split have app: "pre @ post = [Ev_read 5, Ev_write 6 7]" by simp
  then have "Ev_read 5 \<in> set pre \<union> set post" "Ev_write 6 7 \<in> set pre \<union> set post"
    by (metis list.set_intros(1) set_append, metis list.set_intros(1,2) set_append)
  with pre(1) post(1) have "Ev_read 5 \<in> set pre" "Ev_write 6 7 \<in> set post"
    by (auto simp: list_ex_iff)
  then have "list_ex is_read pre" "list_ex is_write post"
    unfolding list_ex_iff
    by (metis is_read.simps(1), metis is_write.simps(1))
  with pre(2) post(2) have "hd pre = Ev_read 5" "hd post = Ev_write 6 7"
    by (simp_all add: pipes_open_def)
  with split pre(1) post(1) have order: "\<exists>pre post.
      [Ev_poll, Ev_read 5, Ev_write 6 7] = Ev_poll # pre @ post
      \<and> \<not> list_ex is_write pre \<and> \<not> list_ex is_read post
      \<and> hd pre = Ev_read 5 \<and> hd post = Ev_write 6 7"
    by blast
  have rd: "list_ex is_read [Ev_poll, Ev_read 5, Ev_msg ''Command did not read all data'']"
    "read_ret output_closed \<le> 0"
    by (simp_all add: output_closed_def)
  from filter_iter_read_first [OF output_closed_round, of "[both_ready]" "[]"] rd
  have "\<not> list_ex is_write [Ev_poll, Ev_read 5, Ev_msg ''Command did not read all data'']
      \<and> filter_loop 10 [output_closed, both_ready] pipes_open []
          = Some (pipes_open, [Ev_poll, Ev_read 5, Ev_msg ''Command did not read all data''])"
    by simp
  with order show ?thesis by blast
qed

text \<open>
  The claim as written services the write before the read. In a round in which the
  output pipe is readable and the input pipe writable, the code reads descriptor 5
  first and writes to descriptor 6 afterwards.
\<close>

theorem filter_reads_before_it_writes:
  "revents0 both_ready AND POLLIN \<noteq> 0 \<and> revents1 both_ready AND POLLOUT \<noteq> 0
   \<and> filter_iter 10 both_ready pipes_open
     = (Continue, \<lparr>fd0 = 5, fd1 = 6, wlen = 6, output_len = 4\<rparr>,
        [Ev_poll, Ev_read 5, Ev_write 6 7])"
  by (simp add: both_ready_round) (simp add: both_ready_def POLLIN_def POLLOUT_def)

subsection \<open>The message about unread input\<close>






subsection \<open>The descriptors that spawn closes\<close>

text \<open>
  Claim C10 on the code. With the three actions \<^verbatim>\<open>SPAWN_NULL\<close> and every call
  succeeding, \<^verbatim>\<open>spawn\<close> opens \<^verbatim>\<open>/dev/null\<close> as descriptors 3, 4 and 5
  and returns true after closing 3, 4 and 4 again: the child side of stderr,
  descriptor 5, is never closed, and descriptor 4 is closed twice.
\<close>

theorem spawn_leaves_stderr_fd_open:
  "spawn all_succeed False False 0 [SPAWN_NULL, SPAWN_NULL, SPAWN_NULL]
     = Some (Inr (True,
         [Ev_open 3, Ev_open 4, Ev_open 5, Ev_yield_terminal False, Ev_fork 100,
          Ev_close 3, Ev_close 4, Ev_close 4, Ev_wait 0, Ev_resume_terminal False False]))"
  by (simp add: spawn_def all_succeed_def spawn_setup_fd_def open_dev_null_def safe_xclose_def
      spawn_io_def handle_child_error_def)

subsection \<open>The older filter\<close>

text \<open>
  The \<^verbatim>\<open>filter\<close> that waits with \<^verbatim>\<open>select\<close> has the same order in a round,
  the read before the write, and reports the same condition, with a full stop at the
  end of the message.
\<close>

lemma filter_select_read_first:
  assumes "filter_select_iter n e s = (ctl, s', evs)"
  shows "\<exists>pre post. evs = Ev_select # pre @ post
           \<and> \<not> list_ex is_write pre \<and> \<not> list_ex is_read post
           \<and> (list_ex is_read pre \<longrightarrow> hd pre = Ev_read (fd0 s))
           \<and> (list_ex is_write post \<longrightarrow> hd post = Ev_write (fd1 s) (n - wlen s))"
proof (cases "select_ret e < 0")
  case True
  with assms have "evs = Ev_select # [] @ [] \<or> evs = Ev_select # [Ev_msg ''select''] @ []"
    by (auto simp: filter_select_iter_def split: if_splits)
  then show ?thesis
  proof
    assume "evs = Ev_select # [] @ []"
    then show ?thesis by (intro exI [where x = "[]"]) simp
  next
    assume "evs = Ev_select # [Ev_msg ''select''] @ []"
    then show ?thesis
      by (intro exI [where x = "[Ev_msg ''select'']"] exI [where x = "[]"]) simp
  qed
next
  case False
  obtain c1 s1 ev1 where rd: "filter_select_read n e s = (c1, s1, ev1)"
    by (cases "filter_select_read n e s") auto
  have p1: "\<not> list_ex is_write ev1"
    and p3: "list_ex is_read ev1 \<longrightarrow> hd ev1 = Ev_read (fd0 s)"
    and same: "c1 = Continue \<longrightarrow> wlen s1 = wlen s \<and> fd1 s1 = fd1 s"
    using rd by (auto simp: filter_select_read_def split: if_splits)
  show ?thesis
  proof (cases c1)
    case Break
    with assms False rd have "evs = Ev_select # ev1 @ []"
      by (simp add: filter_select_iter_def)
    with p1 p3 show ?thesis by (intro exI [where x = ev1] exI [where x = "[]"]) simp
  next
    case Continue
    obtain c2 s2 ev2 where wr: "filter_select_write n e s1 = (c2, s2, ev2)"
      by (cases "filter_select_write n e s1") auto
    have evs_eq: "evs = Ev_select # ev1 @ ev2"
      using assms False rd Continue wr by (simp add: filter_select_iter_def)
    have p2: "\<not> list_ex is_read ev2"
      and p4: "list_ex is_write ev2 \<longrightarrow> hd ev2 = Ev_write (fd1 s1) (n - wlen s1)"
      using wr by (auto simp: filter_select_write_def Let_def split: if_splits)
    from p4 same Continue have "list_ex is_write ev2 \<longrightarrow> hd ev2 = Ev_write (fd1 s) (n - wlen s)"
      by simp
    with evs_eq p1 p2 p3 show ?thesis by blast
  qed
qed

lemma filter_select_message:
  assumes "filter_select_iter n e s = (ctl, s', evs)"
  shows "(Ev_msg ''Command did not read all data.'' \<in> set evs
            \<longleftrightarrow> Ev_read (fd0 s) \<in> set evs \<and> sel_read_ret e = 0 \<and> wlen s < n)
         \<and> (Ev_msg ''Command did not read all data.'' \<in> set evs
            \<longrightarrow> ctl = Break \<and> filter_select_loop n (e # es) s log = Some (s', log @ evs))"
proof (cases "select_ret e < 0")
  case True
  with assms have "evs = [Ev_select] \<or> evs = [Ev_select, Ev_msg ''select'']"
    by (auto simp: filter_select_iter_def split: if_splits)
  then show ?thesis by auto
next
  case False
  obtain c1 s1 ev1 where rd: "filter_select_read n e s = (c1, s1, ev1)"
    by (cases "filter_select_read n e s") auto
  have rd_ev: "Ev_msg ''Command did not read all data.'' \<in> set ev1
        \<longleftrightarrow> rfd_isset e \<and> sel_read_ret e = 0 \<and> wlen s < n"
      "Ev_read (fd0 s) \<in> set ev1 \<longleftrightarrow> rfd_isset e"
      "Ev_msg ''Command did not read all data.'' \<in> set ev1 \<longrightarrow> c1 = Break"
    using rd by (auto simp: filter_select_read_def split: if_splits)
  have brk: "ctl = Break \<Longrightarrow> filter_select_loop n (e # es) s log = Some (s', log @ evs)"
    using assms by simp
  show ?thesis
  proof (cases c1)
    case Break
    with assms False rd have "evs = Ev_select # ev1" "ctl = Break"
      by (simp_all add: filter_select_iter_def)
    with rd_ev brk show ?thesis by auto
  next
    case Continue
    obtain c2 s2 ev2 where wr: "filter_select_write n e s1 = (c2, s2, ev2)"
      by (cases "filter_select_write n e s1") auto
    have evs_eq: "evs = Ev_select # ev1 @ ev2"
      using assms False rd Continue wr by (simp add: filter_select_iter_def)
    have post: "Ev_msg ''Command did not read all data.'' \<notin> set ev2"
        "Ev_read (fd0 s) \<notin> set ev2"
      using wr by (auto simp: filter_select_write_def Let_def split: if_splits)
    have "Ev_msg ''Command did not read all data.'' \<notin> set ev1"
      using rd_ev Continue by auto
    with evs_eq post rd_ev show ?thesis by auto
  qed
qed

section \<open>Properties of the exec command\<close>

subsection \<open>The stderr action of an accepted command\<close>










subsection \<open>A spawn that fails\<close>

lemma exec_flags_IN:
  "exec_flags a AND push_bit 0 1 \<noteq> 0
     \<longleftrightarrow> a \<in> {EXEC_BUFFER, EXEC_LINE, EXEC_MSG, EXEC_NULL, EXEC_TTY}"
  by (cases a) (simp_all add: exec_flags_def exec_IN_def exec_OUT_def exec_ERR_def exec_ALL_def)

lemma cmd_exec_flag_stdin:
  assumes "cmd_exec_flag f args x ea = Inr (x', ea')"
    and "length (ex_actions ea) = 3"
    and "ex_actions ea ! 0 \<in> {EXEC_BUFFER, EXEC_LINE, EXEC_MSG, EXEC_NULL, EXEC_TTY}"
  shows "length (ex_actions ea') = 3
    \<and> ex_actions ea' ! 0 \<in> {EXEC_BUFFER, EXEC_LINE, EXEC_MSG, EXEC_NULL, EXEC_TTY}"
proof (cases "f = CHR ''e'' \<or> f = CHR ''i'' \<or> f = CHR ''o''")
  case False
  with assms show ?thesis by (auto simp: cmd_exec_flag_def split: if_splits)
next
  case True
  with assms(1) obtain action where
    a: "bsearch_idx (args ! x) = Some action"
      "exec_flags action AND push_bit (if f = CHR ''e'' then 2 else if f = CHR ''i'' then 0 else 1 :: nat) 1 \<noteq> 0"
      "ex_actions ea' = (ex_actions ea)[(if f = CHR ''e'' then 2 else if f = CHR ''i'' then 0 else 1 :: nat) := action]"
    by (auto simp: cmd_exec_flag_def Let_def split: if_splits option.splits)
  show ?thesis
  proof (cases "f = CHR ''i''")
    case True
    with a(2) have "exec_flags action AND push_bit 0 1 \<noteq> 0" by simp
    then have "action \<in> {EXEC_BUFFER, EXEC_LINE, EXEC_MSG, EXEC_NULL, EXEC_TTY}"
      by (simp only: exec_flags_IN)
    with True a(3) assms(2) show ?thesis by simp
  next
    case False
    with a(3) assms(2,3) show ?thesis by auto
  qed
qed

lemma cmd_exec_flags_stdin:
  "cmd_exec_flags fs args x ea = Inr ea' \<Longrightarrow> length (ex_actions ea) = 3
   \<Longrightarrow> ex_actions ea ! 0 \<in> {EXEC_BUFFER, EXEC_LINE, EXEC_MSG, EXEC_NULL, EXEC_TTY}
   \<Longrightarrow> length (ex_actions ea') = 3
       \<and> ex_actions ea' ! 0 \<in> {EXEC_BUFFER, EXEC_LINE, EXEC_MSG, EXEC_NULL, EXEC_TTY}"
proof (induction fs arbitrary: x ea)
  case Nil
  then show ?case by simp
next
  case (Cons f fs)
  from Cons.prems(1) obtain x1 ea1 where
    step: "cmd_exec_flag f args x ea = Inr (x1, ea1)" and
    rest: "cmd_exec_flags fs args x1 ea1 = Inr ea'"
    by (auto split: sum.splits)
  from cmd_exec_flag_stdin [OF step Cons.prems(2,3)] rest show ?case
    by (intro Cons.IH) auto
qed

text \<open>
  Claim C9. When the flags of an exec command are accepted and the call of
  \<^verbatim>\<open>spawn\<close> that the command makes, on the input it prepared, returns a status
  other than 0, the command ends with the view as the input preparation left it but
  with the cursor that was saved before the preparation, with no consumer of the
  output called, and with the messages of \<^verbatim>\<open>show_spawn_error_msg\<close>.
\<close>

theorem exec_spawn_failure:
  assumes flags: "cmd_exec_flags flags args 0 exec_args_init = Inr ea"
    and inp: "exec_input ops
                (if lflag ea \<and> ex_actions ea ! 0 = EXEC_BUFFER then EXEC_LINE
                 else ex_actions ea ! 0) view = Inr (v, data, n)"
    and sp: "spawn_fn ops
               \<lparr>argv = drop nr_flag_args args,
                lines_and_columns_env = (ex_actions ea ! 1 = EXEC_BUFFER),
                ctx_quiet = ex_quiet ea, ctx_prompt = ex_prompt ea, input_data = data,
                input_len = n\<rparr>
               (ex_spawn_actions ea) = (err, out0, out1)"
    and err: "err \<noteq> 0"
  shows "cmd_exec ops flags args nr_flag_args view
           = Inr (v\<lparr>cursor := cursor view\<rparr>, [], show_spawn_error_msg out1 err)"
proof -
  have "length (ex_actions exec_args_init) = 3"
    "ex_actions exec_args_init ! 0 \<in> {EXEC_BUFFER, EXEC_LINE, EXEC_MSG, EXEC_NULL, EXEC_TTY}"
    by (simp_all add: exec_args_init_def)
  with cmd_exec_flags_stdin [OF flags] have len: "length (ex_actions ea) = 3"
    by simp
  define actions where
    "actions = (if lflag ea \<and> ex_actions ea ! 0 = EXEC_BUFFER
                then (ex_actions ea)[0 := EXEC_LINE] else ex_actions ea)"
  have a0: "actions ! 0 = (if lflag ea \<and> ex_actions ea ! 0 = EXEC_BUFFER then EXEC_LINE
                           else ex_actions ea ! 0)"
    using len by (simp add: actions_def)
  have run: "cmd_exec_run ops (drop nr_flag_args args) ea view
      = Inr (v\<lparr>cursor := cursor view\<rparr>, [], show_spawn_error_msg out1 err)"
    using inp sp err a0
    by (simp add: cmd_exec_run_def Let_def actions_def [symmetric])
  with flags show ?thesis by (simp add: cmd_exec_def)
qed

text \<open>
  The theorem at \<^verbatim>\<open>exec -i line -o buffer tr\<close> with the cursor at offset 57
  and a child that exits with status 2: the input preparation moves the cursor to the
  start of the line, offset 50, and the command ends with the cursor at 57.
\<close>

theorem exec_spawn_failure_witness:
  "cmd_exec failing_ops ''io'' [''line'', ''buffer'', ''tr''] 2
       \<lparr>cursor = 57, selection = SELECT_NONE\<rparr>
     = Inr (\<lparr>cursor = 57, selection = SELECT_NONE\<rparr>, [], [Child_returned 2 ''boom''])
   \<and> exec_input failing_ops EXEC_LINE \<lparr>cursor = 57, selection = SELECT_NONE\<rparr>
       = Inr (\<lparr>cursor = 50, selection = SELECT_NONE\<rparr>, replicate 10 (CHR ''x''), 10)"
proof -
  define ea where
    "ea = exec_args_init\<lparr>ex_actions := [EXEC_LINE, EXEC_BUFFER, EXEC_TTY],
                          ex_spawn_actions := [SPAWN_PIPE, SPAWN_PIPE, SPAWN_TTY]\<rparr>"
  have flags: "cmd_exec_flags ''io'' [''line'', ''buffer'', ''tr''] 0 exec_args_init = Inr ea"
    by (simp add: cmd_exec_flag_def bsearch_idx_def exec_name_def exec_flags_def
        exec_spawn_action_def exec_ERR_def exec_IN_def exec_OUT_def exec_ALL_def
        exec_args_init_def ea_def)
  have inp: "exec_input failing_ops
                (if lflag ea \<and> ex_actions ea ! 0 = EXEC_BUFFER then EXEC_LINE
                 else ex_actions ea ! 0) \<lparr>cursor = 57, selection = SELECT_NONE\<rparr>
       = Inr (\<lparr>cursor = 50, selection = SELECT_NONE\<rparr>, replicate 10 (CHR ''x''), 10)"
    by (simp add: ea_def exec_args_init_def exec_input_def failing_ops_def)
  have sp: "spawn_fn failing_ops
               \<lparr>argv = drop 2 [''line'', ''buffer'', ''tr''],
                lines_and_columns_env = (ex_actions ea ! 1 = EXEC_BUFFER),
                ctx_quiet = ex_quiet ea, ctx_prompt = ex_prompt ea,
                input_data = replicate 10 (CHR ''x''), input_len = 10\<rparr>
               (ex_spawn_actions ea) = (2, [], ''boom'')"
    by (simp add: failing_ops_def)
  have err: "(2::int) \<noteq> 0" by simp
  from exec_spawn_failure [OF flags inp sp err] inp show ?thesis
    by (simp add: show_spawn_error_msg_def first_line_def ea_def exec_args_init_def)
qed

text \<open>
  \<^verbatim>\<open>handle_exec\<close> of exec.c has the same branch: a status other than 0 from
  \<^verbatim>\<open>spawn\<close> restores the saved cursor, calls no consumer of the output and
  returns \<open>-1\<close>.
\<close>

lemma handle_exec_restores_cursor:
  assumes inp: "handle_exec_input ops wops (actions ! 0) view = Inr (v, data, n)"
    and sp: "spawn_fn ops
               \<lparr>argv = args, lines_and_columns_env = (actions ! 1 = Act EXEC_BUFFER),
                ctx_quiet = quiet, ctx_prompt = prompt, input_data = data, input_len = n\<rparr>
               (map spawn_action_from_exec_action (take 3 actions)) = (err, out0, out1)"
    and err: "err \<noteq> 0"
  shows "handle_exec ops wops args actions quiet prompt strip view
           = Inr (v\<lparr>cursor := cursor view\<rparr>, [], show_spawn_error_msg out1 err, - 1)"
  using inp sp err by (simp add: handle_exec_def Let_def)

end
